theory Spec2Isabelle
  imports Main
begin

section \<open>Constants of the module\<close>

text \<open>
  The program is a single Python module, \<^verbatim>\<open>main.py\<close>: a Qt widget \<^verbatim>\<open>AppStack\<close> that
  runs the text of the selected editor tab 1.5 seconds after the last edit. The names of
  the languages, of the commands and of the files are constants of the module and have
  type \<^typ>\<open>string\<close>. The text of an editor, of a file or of a process is a Python
  \<^verbatim>\<open>str\<close>: a list of code points (\<open>pystr\<close>); \<open>py\<close> is the text of a constant.
\<close>

type_synonym pystr = "nat list"

definition py :: "string \<Rightarrow> pystr" where
  "py s = map of_char s"

definition TEMP_DIR :: string where
  "TEMP_DIR = ''appstack_temp''"

text \<open>\<^verbatim>\<open>language_cmds\<close>: the dictionary from language name to its command, in source order.\<close>

definition language_cmds :: "(string \<times> string) list" where
  "language_cmds =
     [(''Python'', ''python3''), (''Rust'', ''rustc''), (''Go'', ''go run''),
      (''C'', ''gcc''), (''C++'', ''g++'')]"

text \<open>\<^verbatim>\<open>os.path.join\<close> of two components, as \<^verbatim>\<open>posixpath\<close> computes it.\<close>

definition os_path_join :: "string \<Rightarrow> string \<Rightarrow> string" where
  "os_path_join a b =
     (if take 1 b = ''/'' then b
      else if a = [] \<or> last a = CHR ''/'' then a @ b
      else a @ ''/'' @ b)"

text \<open>\<^verbatim>\<open>needle in haystack\<close> on Python strings: a case-sensitive substring test.\<close>

fun py_in :: "'a list \<Rightarrow> 'a list \<Rightarrow> bool" where
  "py_in needle [] = (needle = [])"
| "py_in needle (c # cs) = (take (length needle) (c # cs) = needle \<or> py_in needle cs)"

section \<open>Text\<close>

text \<open>
  The code points are the numbers below \<^verbatim>\<open>0x110000\<close>, among them the surrogates.
  \<^verbatim>\<open>toPlainText()\<close> gives the \<^verbatim>\<open>str\<close> that PyQt makes from the \<^verbatim>\<open>QString\<close>
  of the editor: a surrogate pair of the \<^verbatim>\<open>QString\<close> becomes one code point above
  \<^verbatim>\<open>0xFFFF\<close>, so in that \<^verbatim>\<open>str\<close> a high surrogate is never followed by a low one.
  Such a list of code points is an \<open>editor_text\<close>; a surrogate on its own and the code
  point 0 are not excluded.
\<close>

definition is_code_point :: "nat \<Rightarrow> bool" where
  "is_code_point n = (n < 0x110000)"

definition is_high_surrogate :: "nat \<Rightarrow> bool" where
  "is_high_surrogate n = (0xD800 \<le> n \<and> n \<le> 0xDBFF)"

definition is_low_surrogate :: "nat \<Rightarrow> bool" where
  "is_low_surrogate n = (0xDC00 \<le> n \<and> n \<le> 0xDFFF)"

fun editor_text :: "pystr \<Rightarrow> bool" where
  "editor_text [] = True"
| "editor_text [c] = is_code_point c"
| "editor_text (c # c2 # s) =
     (is_code_point c \<and> \<not> (is_high_surrogate c \<and> is_low_surrogate c2) \<and> editor_text (c2 # s))"

definition is_ascii :: "pystr \<Rightarrow> bool" where
  "is_ascii s = list_all (\<lambda>c. c < 128) s"

section \<open>Exceptions and the machine\<close>

text \<open>
  The exceptions that the file and process calls of the module raise, each with the
  argument that its message shows; all are subclasses of \<^verbatim>\<open>Exception\<close>.
  \<open>OtherError\<close> is any other subclass of \<^verbatim>\<open>Exception\<close>, with its message (a
  \<^verbatim>\<open>JSONDecodeError\<close>, a \<^verbatim>\<open>UnicodeEncodeError\<close>, a \<^verbatim>\<open>TypeError\<close>, an
  \<^verbatim>\<open>OSError\<close> of another kind). An interruption of the program from outside
  (\<^verbatim>\<open>KeyboardInterrupt\<close>) is not modelled.
\<close>

datatype exn =
    FileNotFoundError pystr
  | PermissionError pystr
  | KeyError pystr
  | ValueError pystr
  | OtherError pystr

record completed_process =
  returncode :: int
  stdout :: pystr
  stderr :: pystr

text \<open>
  What the machine and the Python runtime on it decide is a parameter of the model:
  \<^item> \<open>encode_error\<close>: the exception of \<^verbatim>\<open>file.write\<close> for a text that the encoding of
    the locale cannot encode, \<open>None\<close> when it can;
  \<^item> \<open>fsencode_error\<close>: the same for \<^verbatim>\<open>os.fsencode\<close> on an argument of a process;
  \<^item> \<open>exec_error\<close>: the exception of \<^verbatim>\<open>subprocess.run\<close> when the program cannot be
    executed (\<^verbatim>\<open>FileNotFoundError\<close>, \<^verbatim>\<open>PermissionError\<close>, an argument list that
    is too long), given the arguments and the files, \<open>None\<close> when it can;
  \<^item> \<open>behave\<close>: what a started program does to the files, and what
    \<^verbatim>\<open>subprocess.run\<close> then returns or raises (for instance a decoding error of
    \<^verbatim>\<open>text=True\<close>);
  \<^item> \<open>load_other\<close>: what \<^verbatim>\<open>json.load\<close> and the use of its result (as an argument
    of a process, or as the text to write to a file) give for a text outside the grammar
    modelled below: the exception with the message of this version of Python, or the
    members that are strings when the text is an object with other members as well;
  \<^item> \<open>repr_other\<close>: \<^verbatim>\<open>repr\<close> of a text with a quote, a backslash or a character
    outside printable ASCII.
\<close>

datatype json_use = AsArgument | AsFileText

record os_env =
  encode_error :: "pystr \<Rightarrow> exn option"
  fsencode_error :: "pystr \<Rightarrow> exn option"
  exec_error :: "pystr list \<Rightarrow> (string \<rightharpoonup> pystr) \<Rightarrow> exn option"
  behave :: "pystr list \<Rightarrow> (string \<rightharpoonup> pystr) \<Rightarrow> (exn + completed_process) \<times> (string \<rightharpoonup> pystr)"
  load_other :: "json_use \<Rightarrow> pystr \<Rightarrow> exn + (pystr \<times> pystr) list"
  repr_other :: "pystr \<Rightarrow> pystr"

text \<open>
  \<^verbatim>\<open>repr\<close> of a text, and \<open>str_exn\<close>, Python's \<^verbatim>\<open>str(e)\<close>: an \<^verbatim>\<open>OSError\<close> shows
  its number, its description and the \<^verbatim>\<open>repr\<close> of the file name, a \<^verbatim>\<open>KeyError\<close> the
  \<^verbatim>\<open>repr\<close> of the key.
\<close>

definition plain_text :: "pystr \<Rightarrow> bool" where
  "plain_text s = list_all (\<lambda>c. 32 \<le> c \<and> c \<le> 126 \<and> c \<noteq> 39 \<and> c \<noteq> 92) s"

definition py_repr :: "os_env \<Rightarrow> pystr \<Rightarrow> pystr" where
  "py_repr E s = (if plain_text s then [39] @ s @ [39] else repr_other E s)"

fun str_exn :: "os_env \<Rightarrow> exn \<Rightarrow> pystr" where
  "str_exn E (FileNotFoundError p) = py ''[Errno 2] No such file or directory: '' @ py_repr E p"
| "str_exn E (PermissionError p) = py ''[Errno 13] Permission denied: '' @ py_repr E p"
| "str_exn E (KeyError k) = py_repr E k"
| "str_exn E (ValueError m) = m"
| "str_exn E (OtherError m) = m"

section \<open>The JSON text of a dictionary of strings\<close>

text \<open>
  \<^verbatim>\<open>json.dump\<close> with its default settings (\<^verbatim>\<open>ensure_ascii=True\<close>, separators
  \<^verbatim>\<open>", "\<close> and \<^verbatim>\<open>": "\<close>) on a dictionary whose keys and values are strings. The
  double quote (34), the backslash (92) and every character outside the printable ASCII
  range are escaped: a code point below \<^verbatim>\<open>0x10000\<close> as \<^verbatim>\<open>\uXXXX\<close> with four
  lower-case hexadecimal digits, a code point above as the two escapes of its surrogate
  pair.
\<close>

definition hexdigit :: "nat \<Rightarrow> nat" where
  "hexdigit d = (if d < 10 then 48 + d else 87 + d)"

definition u_escape :: "nat \<Rightarrow> pystr" where
  "u_escape v =
     [92, 117, hexdigit (v div 4096 mod 16), hexdigit (v div 256 mod 16),
      hexdigit (v div 16 mod 16), hexdigit (v mod 16)]"

definition json_escape_char :: "nat \<Rightarrow> pystr" where
  "json_escape_char c =
     (if c = 34 then [92, 34]
      else if c = 92 then [92, 92]
      else if c = 10 then [92, 110]
      else if c = 13 then [92, 114]
      else if c = 9 then [92, 116]
      else if c = 8 then [92, 98]
      else if c = 12 then [92, 102]
      else if 32 \<le> c \<and> c \<le> 126 then [c]
      else if c < 0x10000 then u_escape c
      else u_escape (0xD800 + (c - 0x10000) div 1024 mod 1024)
           @ u_escape (0xDC00 + (c - 0x10000) mod 1024))"

definition json_dump_str :: "pystr \<Rightarrow> pystr" where
  "json_dump_str s = 34 # concat (map json_escape_char s) @ [34]"

fun json_dump_items :: "(pystr \<times> pystr) list \<Rightarrow> pystr" where
  "json_dump_items [] = []"
| "json_dump_items [(k, v)] = json_dump_str k @ py '': '' @ json_dump_str v"
| "json_dump_items ((k, v) # kvs) =
     json_dump_str k @ py '': '' @ json_dump_str v @ py '', '' @ json_dump_items kvs"

definition json_dump :: "(pystr \<times> pystr) list \<Rightarrow> pystr" where
  "json_dump d = py ''{'' @ json_dump_items d @ py ''}''"

text \<open>
  \<^verbatim>\<open>json.load\<close>, for a JSON object whose values are strings; \<open>None\<close> for any other
  text. \<open>scanstring\<close> reads a string literal after its opening quote (strict mode: a raw
  control character is an error). The escape of a high surrogate that is followed by the
  escape of a low surrogate is read with it as one code point.
\<close>

definition hexval :: "nat \<Rightarrow> nat option" where
  "hexval n =
     (if 48 \<le> n \<and> n \<le> 57 then Some (n - 48)
      else if 97 \<le> n \<and> n \<le> 102 then Some (n - 87)
      else if 65 \<le> n \<and> n \<le> 70 then Some (n - 55)
      else None)"

definition hex4 :: "nat \<Rightarrow> nat \<Rightarrow> nat \<Rightarrow> nat \<Rightarrow> nat option" where
  "hex4 a b c d =
     (case (hexval a, hexval b, hexval c, hexval d) of
        (Some w, Some x, Some y, Some z) \<Rightarrow> Some (((w * 16 + x) * 16 + y) * 16 + z)
      | _ \<Rightarrow> None)"

definition backslash_char :: "nat \<Rightarrow> nat option" where
  "backslash_char e =
     (if e = 34 then Some 34
      else if e = 92 then Some 92
      else if e = 47 then Some 47
      else if e = 98 then Some 8
      else if e = 102 then Some 12
      else if e = 110 then Some 10
      else if e = 114 then Some 13
      else if e = 116 then Some 9
      else None)"

definition cons_result :: "'a \<Rightarrow> ('a list \<times> 'b) option \<Rightarrow> ('a list \<times> 'b) option" where
  "cons_result x r = (case r of None \<Rightarrow> None | Some (xs, rest) \<Rightarrow> Some (x # xs, rest))"

definition join_surrogates :: "nat \<Rightarrow> nat \<Rightarrow> nat" where
  "join_surrogates u u2 = 0x10000 + ((u - 0xD800) * 1024 + (u2 - 0xDC00))"

fun scanstring :: "pystr \<Rightarrow> (pystr \<times> pystr) option" where
  "scanstring [] = None"
| "scanstring (c # cs) =
     (if c = 34 then Some ([], cs)
      else if c = 92 then
        (case cs of
           [] \<Rightarrow> None
         | e # r \<Rightarrow>
             if e = 117 then
               (case r of
                  h1 # h2 # h3 # h4 # r' \<Rightarrow>
                    (case hex4 h1 h2 h3 h4 of
                       None \<Rightarrow> None
                     | Some u \<Rightarrow>
                         if is_high_surrogate u then
                           (case r' of
                              b # u' # r2 \<Rightarrow>
                                if b = 92 \<and> u' = 117 then
                                  (case r2 of
                                     g1 # g2 # g3 # g4 # r3 \<Rightarrow>
                                       (case hex4 g1 g2 g3 g4 of
                                          None \<Rightarrow> None
                                        | Some u2 \<Rightarrow>
                                            if is_low_surrogate u2
                                            then cons_result (join_surrogates u u2) (scanstring r3)
                                            else cons_result u (scanstring r'))
                                   | _ \<Rightarrow> None)
                                else cons_result u (scanstring r')
                            | _ \<Rightarrow> cons_result u (scanstring r'))
                         else cons_result u (scanstring r'))
                | _ \<Rightarrow> None)
             else
               (case backslash_char e of
                  None \<Rightarrow> None
                | Some ch \<Rightarrow> cons_result ch (scanstring r)))
      else if c < 32 then None
      else cons_result c (scanstring cs))"

fun skip_ws :: "pystr \<Rightarrow> pystr" where
  "skip_ws [] = []"
| "skip_ws (c # cs) = (if c = 32 \<or> c = 9 \<or> c = 10 \<or> c = 13 then skip_ws cs else c # cs)"

definition parse_string :: "pystr \<Rightarrow> (pystr \<times> pystr) option" where
  "parse_string s = (case s of [] \<Rightarrow> None | c # cs \<Rightarrow> if c = 34 then scanstring cs else None)"

text \<open>
  The members of an object, after the opening brace (123): a colon is 58, a comma 44, the
  closing brace 125. The first argument bounds the number of members; \<open>json_load\<close>
  passes the length of the input, which is never reached.
\<close>

fun parse_members :: "nat \<Rightarrow> pystr \<Rightarrow> ((pystr \<times> pystr) list \<times> pystr) option" where
  "parse_members 0 s = None"
| "parse_members (Suc n) s =
     (case parse_string s of
        None \<Rightarrow> None
      | Some (k, r1) \<Rightarrow>
          (case skip_ws r1 of
             [] \<Rightarrow> None
           | c1 # r2 \<Rightarrow>
               if c1 \<noteq> 58 then None
               else
                 (case parse_string (skip_ws r2) of
                    None \<Rightarrow> None
                  | Some (v, r3) \<Rightarrow>
                      (case skip_ws r3 of
                         [] \<Rightarrow> None
                       | c2 # r4 \<Rightarrow>
                           if c2 = 44 then cons_result (k, v) (parse_members n (skip_ws r4))
                           else if c2 = 125 then Some ([(k, v)], r4)
                           else None))))"

definition json_load :: "pystr \<Rightarrow> (pystr \<times> pystr) list option" where
  "json_load s =
     (case skip_ws s of
        [] \<Rightarrow> None
      | c # r \<Rightarrow>
          if c \<noteq> 123 then None
          else
            (case skip_ws r of
               [] \<Rightarrow> None
             | c' # r' \<Rightarrow>
                 if c' = 125 then (if skip_ws r' = [] then Some [] else None)
                 else
                   (case parse_members (length r) (c' # r') of
                      None \<Rightarrow> None
                    | Some (d, rest) \<Rightarrow> if skip_ws rest = [] then Some d else None)))"

text \<open>\<^verbatim>\<open>d[key]\<close> on the loaded dictionary: the last member of a repeated key wins.\<close>

definition dict_get :: "(pystr \<times> pystr) list \<Rightarrow> pystr \<Rightarrow> exn + pystr" where
  "dict_get d key = (case map_of (rev d) key of None \<Rightarrow> Inl (KeyError key) | Some v \<Rightarrow> Inr v)"

section \<open>The world outside the widget\<close>

text \<open>
  The file system is a map from path to the text that reading the file gives. \<open>readonly\<close>
  holds the paths that the operating system refuses to create, truncate or delete
  (\<^verbatim>\<open>PermissionError\<close>). \<open>trace\<close> records, in order, every completed file write,
  every deletion and every child process that was started; nothing in the program reads
  it.
\<close>

datatype command = Argv "pystr list" | Shell pystr

datatype action = Wrote string pystr | Removed string | Ran "pystr list"

record world =
  files :: "string \<rightharpoonup> pystr"
  readonly :: "string set"
  trace :: "action list"

text \<open>
  A statement that may raise and that changes the world: the result is the exception or
  the value, together with the world as the statement left it.
\<close>

type_synonym 'a io = "world \<Rightarrow> (exn + 'a) \<times> world"

definition return_io :: "'a \<Rightarrow> 'a io" where
  "return_io x w = (Inr x, w)"

definition lift_io :: "exn + 'a \<Rightarrow> 'a io" where
  "lift_io r w = (r, w)"

definition then_io :: "'a io \<Rightarrow> ('a \<Rightarrow> 'b io) \<Rightarrow> 'b io" where
  "then_io m f w = (case m w of (Inl e, w') \<Rightarrow> (Inl e, w') | (Inr x, w') \<Rightarrow> f x w')"

text \<open>\<^verbatim>\<open>open(p, "w")\<close> creates or truncates the file.\<close>

definition open_w :: "string \<Rightarrow> unit io" where
  "open_w p w =
     (if p \<in> readonly w then (Inl (PermissionError (py p)), w)
      else (Inr (), w\<lparr>files := (files w)(p \<mapsto> [])\<rparr>))"

text \<open>
  Writing \<open>s\<close> to the open file and closing it at the end of the \<^verbatim>\<open>with\<close> block. The
  text is encoded with the encoding of the locale; every such encoding encodes ASCII
  text. When the text cannot be encoded, nothing is written: the file stays empty.
\<close>

definition write_error :: "os_env \<Rightarrow> pystr \<Rightarrow> exn option" where
  "write_error E s = (if is_ascii s then None else encode_error E s)"

definition write_close :: "os_env \<Rightarrow> string \<Rightarrow> pystr \<Rightarrow> unit io" where
  "write_close E p s w =
     (case write_error E s of
        Some e \<Rightarrow> (Inl e, w)
      | None \<Rightarrow> (Inr (), w\<lparr>files := (files w)(p \<mapsto> s), trace := trace w @ [Wrote p s]\<rparr>))"

definition read_text :: "string \<Rightarrow> pystr io" where
  "read_text p w =
     (case files w p of None \<Rightarrow> (Inl (FileNotFoundError (py p)), w) | Some s \<Rightarrow> (Inr s, w))"

text \<open>\<^verbatim>\<open>json.load(open(p))\<close>, with the use that the caller makes of the result.\<close>

definition json_load_file :: "os_env \<Rightarrow> json_use \<Rightarrow> string \<Rightarrow> (pystr \<times> pystr) list io" where
  "json_load_file E u p =
     then_io (read_text p)
       (\<lambda>s. case json_load s of None \<Rightarrow> lift_io (load_other E u s) | Some d \<Rightarrow> return_io d)"

definition os_path_exists :: "string \<Rightarrow> world \<Rightarrow> bool" where
  "os_path_exists p w = (files w p \<noteq> None)"

definition os_remove :: "string \<Rightarrow> unit io" where
  "os_remove p w =
     (case files w p of
        None \<Rightarrow> (Inl (FileNotFoundError (py p)), w)
      | Some _ \<Rightarrow>
          if p \<in> readonly w then (Inl (PermissionError (py p)), w)
          else (Inr (), w\<lparr>files := (files w)(p := None), trace := trace w @ [Removed p]\<rparr>))"

text \<open>A child process is started and waited for; what it does is \<open>behave\<close>.\<close>

definition spawn :: "os_env \<Rightarrow> pystr list \<Rightarrow> completed_process io" where
  "spawn E argv w =
     (case behave E argv (files w) of
        (r, f) \<Rightarrow> (r, w\<lparr>files := f, trace := trace w @ [Ran argv]\<rparr>))"

text \<open>
  Before a process exists, \<^verbatim>\<open>subprocess.run\<close> turns every argument into the bytes of a
  C string, in order: an argument that cannot be encoded raises the exception of the
  encoding, and one that contains the code point 0 raises
  \<^verbatim>\<open>ValueError: embedded null byte\<close>. Then the program is executed, or the exception of
  the failed execution is raised.
\<close>

fun arg_error :: "os_env \<Rightarrow> pystr list \<Rightarrow> exn option" where
  "arg_error E [] = None"
| "arg_error E (a # rest) =
     (case (if is_ascii a then None else fsencode_error E a) of
        Some e \<Rightarrow> Some e
      | None \<Rightarrow>
          if 0 \<in> set a then Some (ValueError (py ''embedded null byte''))
          else arg_error E rest)"

definition launch_error :: "os_env \<Rightarrow> pystr list \<Rightarrow> (string \<rightharpoonup> pystr) \<Rightarrow> exn option" where
  "launch_error E argv fs =
     (case arg_error E argv of Some e \<Rightarrow> Some e | None \<Rightarrow> exec_error E argv fs)"

definition launch :: "os_env \<Rightarrow> pystr list \<Rightarrow> completed_process io" where
  "launch E argv w =
     (case launch_error E argv (files w) of
        Some e \<Rightarrow> (Inl e, w)
      | None \<Rightarrow> spawn E argv w)"

text \<open>
  \<^verbatim>\<open>subprocess.run(args, capture_output=True, text=True)\<close>. With a list, the first
  element is the name of the program to execute, looked up as it is; with
  \<^verbatim>\<open>shell=True\<close> the string is handed to \<^verbatim>\<open>/bin/sh -c\<close>.
\<close>

fun subprocess_run :: "os_env \<Rightarrow> command \<Rightarrow> completed_process io" where
  "subprocess_run E (Argv []) w = (Inl (OtherError (py ''list index out of range'')), w)"
| "subprocess_run E (Argv (prog # args)) w = launch E (prog # args) w"
| "subprocess_run E (Shell s) w = launch E [py ''/bin/sh'', py ''-c'', s] w"

text \<open>\<^verbatim>\<open>process.stdout if process.returncode == 0 else process.stderr\<close>.\<close>

definition proc_output :: "completed_process \<Rightarrow> pystr" where
  "proc_output process = (if returncode process = 0 then stdout process else stderr process)"

text \<open>\<^verbatim>\<open>language_cmds[language]\<close>.\<close>

definition cmd_of :: "string \<Rightarrow> exn + string" where
  "cmd_of language =
     (case map_of language_cmds language of None \<Rightarrow> Inl (KeyError (py language)) | Some c \<Rightarrow> Inr c)"

section \<open>Staging and execution\<close>

text \<open>
  \<^verbatim>\<open>AppStack.save_code\<close>: the descriptor file of a language. \<^verbatim>\<open>json.dump\<close> writes
  ASCII text only.
\<close>

definition descriptor_path :: "string \<Rightarrow> string" where
  "descriptor_path language = os_path_join TEMP_DIR (''temp_code_'' @ language @ ''.json'')"

definition save_code :: "os_env \<Rightarrow> string \<Rightarrow> pystr \<Rightarrow> string io" where
  "save_code E language code =
     (let filename = descriptor_path language in
      then_io (open_w filename) (\<lambda>_.
      then_io (write_close E filename
                 (json_dump [(py ''language'', py language), (py ''code'', code)])) (\<lambda>_.
      return_io filename)))"

text \<open>
  The block
  \<^verbatim>\<open>with open(filename, "w") as file: file.write(json.load(open(code_file))["code"])\<close>
  that the C, Rust and Go branches of \<^verbatim>\<open>execute_code\<close> each contain: the source file is
  opened (and so truncated) before the descriptor is read.
\<close>

definition write_source :: "os_env \<Rightarrow> string \<Rightarrow> string \<Rightarrow> unit io" where
  "write_source E filename code_file =
     then_io (open_w filename) (\<lambda>_.
     then_io (json_load_file E AsFileText code_file) (\<lambda>d.
     then_io (lift_io (dict_get d (py ''code''))) (\<lambda>code.
     write_close E filename code)))"

text \<open>
  The paths that \<^verbatim>\<open>AppStack.execute_code\<close> computes: \<^verbatim>\<open>filename\<close> and
  \<^verbatim>\<open>binary_name\<close> of the C and C++ branch, the source file of the Rust branch and the
  binary that \<^verbatim>\<open>rustc\<close> leaves in the working directory, the source file of the Go
  branch.
\<close>

definition c_source :: "string \<Rightarrow> string" where
  "c_source language = os_path_join TEMP_DIR (''temp_code.'' @ (if language = ''C'' then ''c'' else ''cpp''))"

definition c_binary :: string where
  "c_binary = os_path_join TEMP_DIR ''temp_exec''"

definition rust_source :: string where
  "rust_source = os_path_join TEMP_DIR ''temp_code.rs''"

definition rust_binary :: string where
  "rust_binary = ''./temp_code''"

definition go_source :: string where
  "go_source = os_path_join TEMP_DIR ''temp_code.go''"

text \<open>\<^verbatim>\<open>if os.path.exists(binary_name): os.remove(binary_name)\<close>.\<close>

definition cleanup_c :: "unit io" where
  "cleanup_c w = (if os_path_exists c_binary w then os_remove c_binary w else (Inr (), w))"

text \<open>
  The body of the \<^verbatim>\<open>try\<close> block of \<^verbatim>\<open>AppStack.execute_code\<close>, branch by branch
  of its \<^verbatim>\<open>if\<close>; for a language that none of the branches names, \<^verbatim>\<open>output\<close> stays
  the empty string.
\<close>

definition execute_body :: "os_env \<Rightarrow> string \<Rightarrow> string \<Rightarrow> pystr io" where
  "execute_body E language code_file =
     (if language = ''Python'' then
        then_io (json_load_file E AsArgument code_file) (\<lambda>code_data.
        then_io (lift_io (cmd_of language)) (\<lambda>cmd.
        then_io (lift_io (dict_get code_data (py ''code''))) (\<lambda>code.
        then_io (subprocess_run E (Argv [py cmd, py ''-c'', code])) (\<lambda>process.
        return_io (proc_output process)))))
      else if language = ''C'' \<or> language = ''C++'' then
        then_io (write_source E (c_source language) code_file) (\<lambda>_.
        then_io (lift_io (cmd_of language)) (\<lambda>cmd.
        then_io (subprocess_run E
                   (Shell (py (cmd @ '' '' @ c_source language @ '' -o '' @ c_binary)))) (\<lambda>compile_process.
        then_io (if returncode compile_process = 0
                 then then_io (subprocess_run E (Shell (py c_binary))) (\<lambda>run_process.
                      return_io (proc_output run_process))
                 else return_io (stderr compile_process)) (\<lambda>output.
        then_io cleanup_c (\<lambda>_.
        return_io output)))))
      else if language = ''Rust'' then
        then_io (write_source E rust_source code_file) (\<lambda>_.
        then_io (subprocess_run E (Argv [py ''rustc'', py rust_source])) (\<lambda>compile_process.
        if returncode compile_process = 0
        then then_io (subprocess_run E (Argv [py rust_binary])) (\<lambda>run_process.
             then_io (os_remove rust_binary) (\<lambda>_.
             return_io (proc_output run_process)))
        else return_io (stderr compile_process)))
      else if language = ''Go'' then
        then_io (write_source E go_source code_file) (\<lambda>_.
        then_io (lift_io (cmd_of language)) (\<lambda>cmd.
        then_io (subprocess_run E (Argv [py cmd, py go_source])) (\<lambda>process.
        return_io (proc_output process))))
      else return_io [])"

text \<open>
  \<^verbatim>\<open>AppStack.execute_code\<close>: \<^verbatim>\<open>except Exception as e: output = str(e)\<close> around the
  body; the effects the body had before it raised stay.
\<close>

definition execute_code :: "os_env \<Rightarrow> string \<Rightarrow> string \<Rightarrow> world \<Rightarrow> pystr \<times> world" where
  "execute_code E language code_file w =
     (case execute_body E language code_file w of
        (Inl e, w') \<Rightarrow> (str_exn E e, w')
      | (Inr output, w') \<Rightarrow> (output, w'))"

section \<open>The widget\<close>

text \<open>
  A \<^verbatim>\<open>QProcess\<close> object. \<^verbatim>\<open>start()\<close> puts it in state \<open>Starting\<close>; the child reports
  later that it runs or that it has ended. \<^verbatim>\<open>terminate()\<close> only sends the request to
  end (\<open>term_sent\<close>); it does not wait.
\<close>

datatype process_state = NotRunning | Starting | Running

datatype exit_status = NormalExit | CrashExit

record qprocess =
  program :: string
  arguments :: "pystr list"
  pstate :: process_state
  exit_st :: exit_status
  term_sent :: bool
  finished_connected :: bool

definition new_qprocess :: qprocess where
  "new_qprocess =
     \<lparr>program = [], arguments = [], pstate = NotRunning, exit_st = NormalExit,
      term_sent = False, finished_connected = False\<rparr>"

text \<open>
  The fields of \<^verbatim>\<open>AppStack\<close>. \<open>run_timer\<close> is \<open>None\<close> when the timer is stopped and
  \<open>Some r\<close> when it fires in \<open>r\<close> milliseconds. \<open>old_procs\<close> are the \<^verbatim>\<open>QProcess\<close>
  objects that \<open>gui_process\<close> referred to before. \<open>dispatched\<close> records the language and
  text of every call of \<^verbatim>\<open>run_code\<close>; nothing in the program reads it.
\<close>

record app_stack =
  current_tab :: string
  code_editors :: "string \<rightharpoonup> pystr"
  output_area :: pystr
  gui_preview :: string
  run_timer :: "nat option"
  old_procs :: "qprocess list"
  gui_process :: qprocess
  dispatched :: "(string \<times> pystr) list"
  outside :: world

definition INTERVAL :: nat where
  "INTERVAL = 1500"

definition init_app :: "world \<Rightarrow> app_stack" where
  "init_app w =
     \<lparr>current_tab = ''Python'',
      code_editors = map_of (map (\<lambda>(lang, cmd). (lang, [])) language_cmds),
      output_area = [],
      gui_preview = ''GUI Preview (for Tkinter and PyQt6 apps)'',
      run_timer = None,
      old_procs = [],
      gui_process = new_qprocess,
      dispatched = [],
      outside = w\<rparr>"

text \<open>\<^verbatim>\<open>AppStack.on_code_change\<close>: \<^verbatim>\<open>QTimer.start()\<close> starts or restarts the countdown.\<close>

definition on_code_change :: "app_stack \<Rightarrow> app_stack" where
  "on_code_change s = s\<lparr>run_timer := Some INTERVAL\<rparr>"

text \<open>\<^verbatim>\<open>QProcess.terminate()\<close> behind the test that the process is running.\<close>

definition terminate_if_running :: "qprocess \<Rightarrow> qprocess" where
  "terminate_if_running p = (if pstate p = Running then p\<lparr>term_sent := True\<rparr> else p)"

text \<open>\<^verbatim>\<open>AppStack.run_gui_preview\<close>.\<close>

definition started_preview :: "pystr \<Rightarrow> qprocess" where
  "started_preview code =
     new_qprocess\<lparr>program := ''python3'', arguments := [py ''-c'', code], pstate := Starting,
       finished_connected := True\<rparr>"

definition run_gui_preview :: "pystr \<Rightarrow> app_stack \<Rightarrow> app_stack" where
  "run_gui_preview code s =
     s\<lparr>old_procs := old_procs s @ [terminate_if_running (gui_process s)],
       gui_process := started_preview code\<rparr>"

text \<open>\<^verbatim>\<open>AppStack.clear_output\<close>.\<close>

definition clear_output :: "app_stack \<Rightarrow> app_stack" where
  "clear_output s = s\<lparr>output_area := [], gui_process := terminate_if_running (gui_process s)\<rparr>"

text \<open>\<^verbatim>\<open>AppStack.on_gui_finished\<close>: it looks at the current \<open>gui_process\<close>.\<close>

definition on_gui_finished :: "app_stack \<Rightarrow> app_stack" where
  "on_gui_finished s =
     (if exit_st (gui_process s) = NormalExit then s\<lparr>gui_preview := ''GUI Preview Finished''\<rparr>
      else s\<lparr>gui_preview := ''Error in GUI code.''\<rparr>)"

text \<open>
  \<^verbatim>\<open>AppStack.run_code\<close>. \<^verbatim>\<open>save_code\<close> is called outside any \<^verbatim>\<open>try\<close>: the first
  component of the result is the exception that leaves the slot, if any.
\<close>

definition is_gui_code :: "string \<Rightarrow> pystr \<Rightarrow> bool" where
  "is_gui_code current_lang code =
     (current_lang = ''Python'' \<and> (py_in (py ''Tkinter'') code \<or> py_in (py ''PyQt6'') code))"

definition run_code :: "os_env \<Rightarrow> app_stack \<Rightarrow> exn option \<times> app_stack" where
  "run_code E s =
     (let s1 = s\<lparr>run_timer := None\<rparr>;
          current_lang = current_tab s1
      in case code_editors s1 current_lang of
           None \<Rightarrow> (Some (KeyError (py current_lang)), s1)
         | Some code \<Rightarrow>
             (let s2 = s1\<lparr>dispatched := dispatched s1 @ [(current_lang, code)]\<rparr>
              in case save_code E current_lang code (outside s2) of
                   (Inl e, w) \<Rightarrow> (Some e, s2\<lparr>outside := w\<rparr>)
                 | (Inr code_file, w) \<Rightarrow>
                     if is_gui_code current_lang code
                     then (None, run_gui_preview code (s2\<lparr>outside := w\<rparr>))
                     else (case execute_code E current_lang code_file w of
                             (output, w') \<Rightarrow> (None, s2\<lparr>outside := w', output_area := output\<rparr>))))"

section \<open>The event loop\<close>

text \<open>
  What reaches the widget: an edit of the editor of a language, the selection of a tab, a
  click on the clear button, the passing of one millisecond, and the reports of the child
  processes (numbered in the order of their creation). An event for an editor, a tab or a
  process that does not exist changes nothing.
\<close>

datatype event =
    TextChanged string pystr
  | TabSelected string
  | ClearClicked
  | Tick
  | ProcStarted nat
  | ProcFinished nat exit_status
  | ProcFailedToStart nat

definition update_proc :: "nat \<Rightarrow> (qprocess \<Rightarrow> qprocess) \<Rightarrow> app_stack \<Rightarrow> app_stack" where
  "update_proc i f s =
     (if i < length (old_procs s) then s\<lparr>old_procs := (old_procs s)[i := f (old_procs s ! i)]\<rparr>
      else if i = length (old_procs s) then s\<lparr>gui_process := f (gui_process s)\<rparr>
      else s)"

definition proc_at :: "nat \<Rightarrow> app_stack \<Rightarrow> qprocess option" where
  "proc_at i s =
     (if i < length (old_procs s) then Some (old_procs s ! i)
      else if i = length (old_procs s) then Some (gui_process s)
      else None)"

text \<open>
  The timer repeats: at a timeout it is armed again and the slot \<^verbatim>\<open>run_code\<close> is called
  (which stops it).
\<close>

definition tick :: "os_env \<Rightarrow> app_stack \<Rightarrow> exn option \<times> app_stack" where
  "tick E s =
     (case run_timer s of
        None \<Rightarrow> (None, s)
      | Some r \<Rightarrow>
          if r \<le> 1 then run_code E (s\<lparr>run_timer := Some INTERVAL\<rparr>)
          else (None, s\<lparr>run_timer := Some (r - 1)\<rparr>))"

fun step :: "os_env \<Rightarrow> event \<Rightarrow> app_stack \<Rightarrow> exn option \<times> app_stack" where
  "step E (TextChanged lang t) s =
     (if code_editors s lang = None then (None, s)
      else (None, on_code_change (s\<lparr>code_editors := (code_editors s)(lang \<mapsto> t)\<rparr>)))"
| "step E (TabSelected lang) s =
     (if code_editors s lang = None then (None, s) else (None, s\<lparr>current_tab := lang\<rparr>))"
| "step E ClearClicked s = (None, clear_output s)"
| "step E Tick s = tick E s"
| "step E (ProcStarted i) s =
     (case proc_at i s of
        None \<Rightarrow> (None, s)
      | Some p \<Rightarrow>
          if pstate p = Starting then (None, update_proc i (\<lambda>q. q\<lparr>pstate := Running\<rparr>) s)
          else (None, s))"
| "step E (ProcFinished i st) s =
     (case proc_at i s of
        None \<Rightarrow> (None, s)
      | Some p \<Rightarrow>
          if pstate p = Running then
            (let s' = update_proc i (\<lambda>q. q\<lparr>pstate := NotRunning, exit_st := st\<rparr>) s
             in (None, if finished_connected p then on_gui_finished s' else s'))
          else (None, s))"
| "step E (ProcFailedToStart i) s =
     (case proc_at i s of
        None \<Rightarrow> (None, s)
      | Some p \<Rightarrow>
          if pstate p = Starting then (None, update_proc i (\<lambda>q. q\<lparr>pstate := NotRunning\<rparr>) s)
          else (None, s))"

text \<open>An exception that leaves a slot ends the program: the later events are not handled.\<close>

fun run_events :: "os_env \<Rightarrow> event list \<Rightarrow> app_stack \<Rightarrow> exn option \<times> app_stack" where
  "run_events E [] s = (None, s)"
| "run_events E (ev # evs) s =
     (case step E ev s of
        (Some e, s') \<Rightarrow> (Some e, s')
      | (None, s') \<Rightarrow> run_events E evs s')"

section \<open>Notions used to state the properties\<close>

text \<open>
  A burst, in the words of the specification: a list of events during which the countdown
  of 1.5 seconds, restarted by every edit, never elapses. \<open>burst_outcome r tab eds evs\<close>
  is \<open>None\<close> when the countdown, at \<open>r\<close> milliseconds before the events, elapses during
  them; otherwise it gives the time left after them, the selected tab and the editor
  texts.
\<close>

fun burst_outcome ::
  "nat \<Rightarrow> string \<Rightarrow> (string \<rightharpoonup> pystr) \<Rightarrow> event list
   \<Rightarrow> (nat \<times> string \<times> (string \<rightharpoonup> pystr)) option" where
  "burst_outcome r tab eds [] = Some (r, tab, eds)"
| "burst_outcome r tab eds (Tick # evs) =
     (if r \<le> 1 then None else burst_outcome (r - 1) tab eds evs)"
| "burst_outcome r tab eds (TextChanged lang t # evs) =
     (if eds lang = None then burst_outcome r tab eds evs
      else burst_outcome INTERVAL tab (eds(lang \<mapsto> t)) evs)"
| "burst_outcome r tab eds (TabSelected lang # evs) =
     (if eds lang = None then burst_outcome r tab eds evs else burst_outcome r lang eds evs)"
| "burst_outcome r tab eds (ev # evs) = burst_outcome r tab eds evs"

text \<open>The world after \<^verbatim>\<open>save_code\<close> has written the descriptor of a language.\<close>

definition staged :: "string \<Rightarrow> pystr \<Rightarrow> world \<Rightarrow> world" where
  "staged language code w =
     w\<lparr>files := (files w)(descriptor_path language \<mapsto>
                   json_dump [(py ''language'', py language), (py ''code'', code)]),
       trace := trace w @ [Wrote (descriptor_path language)
                   (json_dump [(py ''language'', py language), (py ''code'', code)])]\<rparr>"

text \<open>The source file that \<^verbatim>\<open>execute_code\<close> writes for a language other than Python.\<close>

definition source_path :: "string \<Rightarrow> string" where
  "source_path language =
     (if language = ''Rust'' then rust_source
      else if language = ''Go'' then go_source
      else c_source language)"

text \<open>The compile step of a compiled language, as \<^verbatim>\<open>execute_code\<close> invokes it.\<close>

definition compile_command :: "string \<Rightarrow> command" where
  "compile_command language =
     (if language = ''Rust'' then Argv [py ''rustc'', py rust_source]
      else if language = ''C'' then Shell (py (''gcc '' @ c_source language @ '' -o '' @ c_binary))
      else Shell (py (''g++ '' @ c_source language @ '' -o '' @ c_binary)))"

text \<open>The child processes that have not ended.\<close>

definition live_procs :: "app_stack \<Rightarrow> qprocess list" where
  "live_procs s = filter (\<lambda>p. pstate p \<noteq> NotRunning) (old_procs s @ [gui_process s])"

text \<open>A statement only adds to the trace.\<close>

definition grows :: "'a io \<Rightarrow> bool" where
  "grows m = (\<forall>w. \<exists>ext. trace (snd (m w)) = trace w @ ext)"

text \<open>
  The text after the escape of a high surrogate does not start with the escape of a low
  surrogate.
\<close>

definition ahead_ok :: "pystr \<Rightarrow> bool" where
  "ahead_ok tail =
     (case tail of
        b # u' # r2 \<Rightarrow>
          if b = 92 \<and> u' = 117 then
            (case r2 of
               g1 # g2 # g3 # g4 # r3 \<Rightarrow>
                 (case hex4 g1 g2 g3 g4 of None \<Rightarrow> False | Some u2 \<Rightarrow> \<not> is_low_surrogate u2)
             | _ \<Rightarrow> False)
          else True
      | _ \<Rightarrow> True)"

section \<open>Sample worlds\<close>

text \<open>
  Two machines for the examples, made from any machine \<open>M\<close>, which gives the messages
  of the Python runtime. Both have a locale whose encoding encodes every code point that
  is not a surrogate, as UTF-8 does. On both, the five tools and the shell are installed
  under their own names, the binary \<^verbatim>\<open>./temp_code\<close> can be executed when the file
  exists, and no other program is found. On \<open>broken_tools\<close> every program exits with
  code 1; on \<open>sample_tools\<close> the compilers write the binary and every other program
  prints a greeting.
\<close>

definition empty_world :: world where
  "empty_world = \<lparr>files = Map.empty, readonly = {}, trace = []\<rparr>"

definition is_surrogate :: "nat \<Rightarrow> bool" where
  "is_surrogate n = (0xD800 \<le> n \<and> n \<le> 0xDFFF)"

definition installed :: "pystr list \<Rightarrow> (string \<rightharpoonup> pystr) \<Rightarrow> exn option" where
  "installed argv fs =
     (case argv of
        [] \<Rightarrow> None
      | prog # args \<Rightarrow>
          if prog \<in> set (map py [''python3'', ''rustc'', ''go'', ''gcc'', ''g++'', ''/bin/sh''])
          then None
          else if prog = py rust_binary \<and> fs rust_binary \<noteq> None then None
          else Some (FileNotFoundError prog))"

definition utf8_locale :: "os_env \<Rightarrow> os_env" where
  "utf8_locale M =
     M\<lparr>encode_error := (\<lambda>s. if list_ex is_surrogate s then encode_error M s else None),
       fsencode_error := (\<lambda>s. if list_ex is_surrogate s then fsencode_error M s else None)\<rparr>"

definition broken_tools :: "os_env \<Rightarrow> os_env" where
  "broken_tools M =
     (utf8_locale M)
       \<lparr>exec_error := installed,
        behave := (\<lambda>argv fs. (Inr \<lparr>returncode = 1, stdout = [], stderr = py ''error''\<rparr>, fs))\<rparr>"

definition sample_tools :: "os_env \<Rightarrow> os_env" where
  "sample_tools M =
     (utf8_locale M)
       \<lparr>exec_error := installed,
        behave := (\<lambda>argv fs.
          if take 1 argv = [py ''rustc'']
          then (Inr \<lparr>returncode = 0, stdout = [], stderr = []\<rparr>, fs(rust_binary \<mapsto> py ''ELF''))
          else if take 2 argv = [py ''/bin/sh'', py ''-c''] \<and> argv \<noteq> [py ''/bin/sh'', py ''-c'', py c_binary]
          then (Inr \<lparr>returncode = 0, stdout = [], stderr = []\<rparr>, fs(c_binary \<mapsto> py ''ELF''))
          else (Inr \<lparr>returncode = 0, stdout = py ''Hello'', stderr = []\<rparr>, fs))\<rparr>"

text \<open>
  Worlds with a binary left from an earlier run: one that cannot be deleted at the path of
  the C binary, one at the path of the Rust binary; and the widget after the user
  selected a tab and typed a text.
\<close>

definition locked_binary_world :: world where
  "locked_binary_world = \<lparr>files = [c_binary \<mapsto> py ''ELF''], readonly = {c_binary}, trace = []\<rparr>"

definition leftover_binary_world :: world where
  "leftover_binary_world = \<lparr>files = [rust_binary \<mapsto> py ''ELF''], readonly = {}, trace = []\<rparr>"

definition editing :: "string \<Rightarrow> pystr \<Rightarrow> app_stack" where
  "editing lang code =
     (init_app empty_world)\<lparr>current_tab := lang,
        code_editors := (code_editors (init_app empty_world))(lang \<mapsto> code)\<rparr>"

section \<open>Properties of texts\<close>

lemma py_in_iff: "py_in needle hay \<longleftrightarrow> (\<exists>pre post. hay = pre @ needle @ post)"
proof (induction hay)
  case Nil
  then show ?case by auto
next
  case (Cons c cs)
  show ?case
  proof
    assume "py_in needle (c # cs)"
    then consider "take (length needle) (c # cs) = needle" | "py_in needle cs" by auto
    then show "\<exists>pre post. c # cs = pre @ needle @ post"
    proof cases
      case 1
      then have "c # cs = [] @ needle @ drop (length needle) (c # cs)"
        by (metis append_Nil append_take_drop_id)
      then show ?thesis by blast
    next
      case 2
      with Cons obtain pre post where "cs = pre @ needle @ post" by auto
      then have "c # cs = (c # pre) @ needle @ post" by simp
      then show ?thesis by blast
    qed
  next
    assume "\<exists>pre post. c # cs = pre @ needle @ post"
    then obtain pre post where eq: "c # cs = pre @ needle @ post" by auto
    show "py_in needle (c # cs)"
    proof (cases pre)
      case Nil
      with eq have "take (length needle) (c # cs) = needle" by simp
      then show ?thesis by simp
    next
      case (Cons p ps)
      with eq have "cs = ps @ needle @ post" by simp
      with Cons.IH have "py_in needle cs" by blast
      then show ?thesis by simp
    qed
  qed
qed

lemma py_inject [simp]: "py a = py b \<longleftrightarrow> a = b"
proof
  assume "py a = py b"
  then have "map (char_of :: nat \<Rightarrow> char) (py a) = map char_of (py b)"
    by simp
  then show "a = b"
    by (simp add: py_def comp_def)
qed simp

lemma py_append: "py (a @ b) = py a @ py b"
  by (simp add: py_def)

lemma py_Nil [simp]: "py [] = []" "py s = [] \<longleftrightarrow> s = []"
  by (simp_all add: py_def)

lemma py_lt_256: "c \<in> set (py s) \<Longrightarrow> c < 256"
  by (auto simp: py_def)

lemma editor_text_py: "editor_text (py s)"
proof -
  have "\<forall>c \<in> set t. c < 256 \<Longrightarrow> editor_text t" for t
    by (induction t rule: editor_text.induct)
       (simp_all add: is_code_point_def is_high_surrogate_def)
  then show ?thesis
    using py_lt_256 by blast
qed

section \<open>Properties of the JSON text\<close>

lemma hexval_hexdigit: "d < 16 \<Longrightarrow> hexval (hexdigit d) = Some d"
  by (auto simp: hexval_def hexdigit_def)

lemma hexsum:
  fixes v :: nat
  assumes "v < 65536"
  shows "((v div 4096 mod 16 * 16 + v div 256 mod 16) * 16 + v div 16 mod 16) * 16 + v mod 16 = v"
proof -
  define a where "a = v div 16"
  define b where "b = a div 16"
  define c where "c = b div 16"
  have b: "v div 256 = b" unfolding b_def a_def by (simp add: div_mult2_eq)
  have c: "v div 4096 = c" unfolding c_def b_def a_def by (simp add: div_mult2_eq)
  have c16: "c < 16" using assms unfolding c [symmetric] by (simp add: less_mult_imp_div_less)
  have 1: "c * 16 + b mod 16 = b" unfolding c_def by (rule div_mult_mod_eq)
  have 2: "b * 16 + a mod 16 = a" unfolding b_def by (rule div_mult_mod_eq)
  have 3: "a * 16 + v mod 16 = v" unfolding a_def by (rule div_mult_mod_eq)
  show ?thesis
    unfolding b c a_def [symmetric] using c16 1 2 3 by simp
qed

lemma u_escape_cases:
  assumes "v < 65536"
  obtains a b c d where "u_escape v = [92, 117, a, b, c, d]" and "hex4 a b c d = Some v"
proof
  show "u_escape v = [92, 117, hexdigit (v div 4096 mod 16), hexdigit (v div 256 mod 16),
      hexdigit (v div 16 mod 16), hexdigit (v mod 16)]"
    by (rule u_escape_def)
  have d: "hexval (hexdigit (v div 4096 mod 16)) = Some (v div 4096 mod 16)"
    "hexval (hexdigit (v div 256 mod 16)) = Some (v div 256 mod 16)"
    "hexval (hexdigit (v div 16 mod 16)) = Some (v div 16 mod 16)"
    "hexval (hexdigit (v mod 16)) = Some (v mod 16)"
    by (rule hexval_hexdigit, simp)+
  show "hex4 (hexdigit (v div 4096 mod 16)) (hexdigit (v div 256 mod 16))
          (hexdigit (v div 16 mod 16)) (hexdigit (v mod 16)) = Some v"
    unfolding hex4_def d by (simp only: prod.case option.case hexsum [OF assms])
qed

lemma scanstring_u:
  "scanstring (92 # 117 # a # b # c # d # tail) =
     (case hex4 a b c d of
        None \<Rightarrow> None
      | Some u \<Rightarrow>
          if is_high_surrogate u then
            (case tail of
               b' # u' # r2 \<Rightarrow>
                 if b' = 92 \<and> u' = 117 then
                   (case r2 of
                      g1 # g2 # g3 # g4 # r3 \<Rightarrow>
                        (case hex4 g1 g2 g3 g4 of
                           None \<Rightarrow> None
                         | Some u2 \<Rightarrow>
                             if is_low_surrogate u2
                             then cons_result (join_surrogates u u2) (scanstring r3)
                             else cons_result u (scanstring tail))
                    | _ \<Rightarrow> None)
                 else cons_result u (scanstring tail)
             | _ \<Rightarrow> cons_result u (scanstring tail))
          else cons_result u (scanstring tail))"
  by simp

lemma scan_u_plain:
  assumes "v < 65536" and "\<not> is_high_surrogate v"
  shows "scanstring (u_escape v @ tail) = cons_result v (scanstring tail)"
proof -
  from assms(1) obtain a b c d where e: "u_escape v = [92, 117, a, b, c, d]"
    and h: "hex4 a b c d = Some v"
    by (rule u_escape_cases)
  show ?thesis
    unfolding e using assms(2) by (simp add: scanstring_u h del: scanstring.simps)
qed

lemma scan_u_high:
  assumes "is_high_surrogate v" and "ahead_ok tail"
  shows "scanstring (u_escape v @ tail) = cons_result v (scanstring tail)"
proof -
  have v: "v < 65536"
    using assms(1) by (simp add: is_high_surrogate_def)
  from v obtain a b c d where e: "u_escape v = [92, 117, a, b, c, d]"
    and h: "hex4 a b c d = Some v"
    by (rule u_escape_cases)
  have s: "scanstring (u_escape v @ tail) =
     (case tail of
        b' # u' # r2 \<Rightarrow>
          if b' = 92 \<and> u' = 117 then
            (case r2 of
               g1 # g2 # g3 # g4 # r3 \<Rightarrow>
                 (case hex4 g1 g2 g3 g4 of
                    None \<Rightarrow> None
                  | Some u2 \<Rightarrow>
                      if is_low_surrogate u2
                      then cons_result (join_surrogates v u2) (scanstring r3)
                      else cons_result v (scanstring tail))
             | _ \<Rightarrow> None)
          else cons_result v (scanstring tail)
      | _ \<Rightarrow> cons_result v (scanstring tail))"
    unfolding e using assms(1) by (simp add: scanstring_u h del: scanstring.simps)
  show ?thesis
    unfolding s using assms(2)
    by (auto simp add: ahead_ok_def simp del: scanstring.simps
        split: list.splits option.splits if_splits)
qed

lemma scan_u_pair:
  assumes "is_high_surrogate u" and "is_low_surrogate u2"
  shows "scanstring (u_escape u @ u_escape u2 @ tail)
         = cons_result (join_surrogates u u2) (scanstring tail)"
proof -
  have v: "u < 65536" "u2 < 65536"
    using assms by (simp_all add: is_high_surrogate_def is_low_surrogate_def)
  from v(1) obtain a b c d where e: "u_escape u = [92, 117, a, b, c, d]"
    and h: "hex4 a b c d = Some u"
    by (rule u_escape_cases)
  from v(2) obtain a2 b2 c2 d2 where e2: "u_escape u2 = [92, 117, a2, b2, c2, d2]"
    and h2: "hex4 a2 b2 c2 d2 = Some u2"
    by (rule u_escape_cases)
  show ?thesis
    unfolding e e2 using assms by (simp add: scanstring_u h h2 del: scanstring.simps)
qed

lemma join_split:
  assumes "65536 \<le> c" and "is_code_point c"
  shows "join_surrogates (0xD800 + (c - 0x10000) div 1024 mod 1024) (0xDC00 + (c - 0x10000) mod 1024) = c"
proof -
  define n where "n = c - 65536"
  have n: "n < 1048576" "c = 65536 + n"
    using assms by (simp_all add: n_def is_code_point_def)
  have d: "n div 1024 < 1024"
    using n(1) by (simp add: less_mult_imp_div_less)
  have "n div 1024 * 1024 + n mod 1024 = n"
    by (rule div_mult_mod_eq)
  then show ?thesis
    using d n(2) by (simp add: join_surrogates_def n_def [symmetric])
qed

lemma scan_escape_char:
  assumes "is_code_point c" and "is_high_surrogate c \<longrightarrow> ahead_ok tail"
  shows "scanstring (json_escape_char c @ tail) = cons_result c (scanstring tail)"
proof -
  consider (special) "c = 34 \<or> c = 92 \<or> c = 10 \<or> c = 13 \<or> c = 9 \<or> c = 8 \<or> c = 12"
    | (plain) "c \<noteq> 34" "c \<noteq> 92" "c \<noteq> 10" "c \<noteq> 13" "c \<noteq> 9" "c \<noteq> 8" "c \<noteq> 12"
        "32 \<le> c \<and> c \<le> 126"
    | (bmp) "c \<noteq> 34" "c \<noteq> 92" "c \<noteq> 10" "c \<noteq> 13" "c \<noteq> 9" "c \<noteq> 8" "c \<noteq> 12"
        "\<not> (32 \<le> c \<and> c \<le> 126)" "c < 65536"
    | (astral) "c \<noteq> 34" "c \<noteq> 92" "c \<noteq> 10" "c \<noteq> 13" "c \<noteq> 9" "c \<noteq> 8" "c \<noteq> 12"
        "\<not> (32 \<le> c \<and> c \<le> 126)" "\<not> c < 65536"
    by blast
  then show ?thesis
  proof cases
    case special
    then show ?thesis
      by (auto simp: json_escape_char_def backslash_char_def)
  next
    case plain
    then show ?thesis
      by (simp add: json_escape_char_def)
  next
    case bmp
    have e: "json_escape_char c = u_escape c"
      by (simp add: json_escape_char_def bmp)
    show ?thesis
    proof (cases "is_high_surrogate c")
      case True
      then show ?thesis
        unfolding e using assms(2) by (simp add: scan_u_high)
    next
      case False
      then show ?thesis
        unfolding e using bmp(9) by (simp add: scan_u_plain)
    qed
  next
    case astral
    let ?u = "0xD800 + (c - 0x10000) div 1024 mod 1024"
    let ?u2 = "0xDC00 + (c - 0x10000) mod 1024"
    have e: "json_escape_char c = u_escape ?u @ u_escape ?u2"
      by (simp add: json_escape_char_def astral)
    have "(c - 0x10000) div 1024 mod 1024 < 1024"
      by simp
    then have h: "is_high_surrogate ?u"
      unfolding is_high_surrogate_def by linarith
    have "(c - 0x10000) mod 1024 < 1024"
      by simp
    then have l: "is_low_surrogate ?u2"
      unfolding is_low_surrogate_def by linarith
    have j: "join_surrogates ?u ?u2 = c"
      by (rule join_split) (use astral(9) assms(1) in simp_all)
    show ?thesis
      unfolding e using scan_u_pair [OF h l, of tail] j by simp
  qed
qed


lemma ahead_ok_escape:
  assumes "is_code_point c" and "\<not> is_low_surrogate c"
  shows "ahead_ok (json_escape_char c @ tail)"
proof -
  consider (special) "c = 34 \<or> c = 92 \<or> c = 10 \<or> c = 13 \<or> c = 9 \<or> c = 8 \<or> c = 12"
    | (plain) "c \<noteq> 34" "c \<noteq> 92" "c \<noteq> 10" "c \<noteq> 13" "c \<noteq> 9" "c \<noteq> 8" "c \<noteq> 12"
        "32 \<le> c \<and> c \<le> 126"
    | (bmp) "c \<noteq> 34" "c \<noteq> 92" "c \<noteq> 10" "c \<noteq> 13" "c \<noteq> 9" "c \<noteq> 8" "c \<noteq> 12"
        "\<not> (32 \<le> c \<and> c \<le> 126)" "c < 65536"
    | (astral) "c \<noteq> 34" "c \<noteq> 92" "c \<noteq> 10" "c \<noteq> 13" "c \<noteq> 9" "c \<noteq> 8" "c \<noteq> 12"
        "\<not> (32 \<le> c \<and> c \<le> 126)" "\<not> c < 65536"
    by blast
  then show ?thesis
  proof cases
    case special
    then show ?thesis
      by (auto simp: json_escape_char_def ahead_ok_def)
  next
    case plain
    then show ?thesis
      by (cases tail) (simp_all add: json_escape_char_def ahead_ok_def)
  next
    case bmp
    have e: "json_escape_char c = u_escape c"
      by (simp add: json_escape_char_def bmp)
    from bmp(9) obtain h1 h2 h3 h4 where u: "u_escape c = [92, 117, h1, h2, h3, h4]"
      and h: "hex4 h1 h2 h3 h4 = Some c"
      by (rule u_escape_cases)
    show ?thesis
      unfolding e u using assms(2) by (simp add: ahead_ok_def h)
  next
    case astral
    let ?u = "0xD800 + (c - 0x10000) div 1024 mod 1024"
    let ?u2 = "0xDC00 + (c - 0x10000) mod 1024"
    have e: "json_escape_char c = u_escape ?u @ u_escape ?u2"
      by (simp add: json_escape_char_def astral)
    have m: "(c - 0x10000) div 1024 mod 1024 < 1024"
      by simp
    then have lt: "?u < 65536"
      by linarith
    have nl: "\<not> is_low_surrogate ?u"
      unfolding is_low_surrogate_def using m by linarith
    from lt obtain h1 h2 h3 h4 where u: "u_escape ?u = [92, 117, h1, h2, h3, h4]"
      and h: "hex4 h1 h2 h3 h4 = Some ?u"
      by (rule u_escape_cases)
    show ?thesis
      unfolding e u using nl by (simp add: ahead_ok_def h)
  qed
qed

lemma ahead_ok_quote: "ahead_ok (34 # rest)"
  by (cases rest) (simp_all add: ahead_ok_def)

lemma scanstring_escaped:
  "editor_text s \<Longrightarrow> scanstring (concat (map json_escape_char s) @ 34 # rest) = Some (s, rest)"
proof (induction s rule: editor_text.induct)
  case 1
  show ?case by simp
next
  case (2 c)
  have "scanstring (json_escape_char c @ 34 # rest) = cons_result c (scanstring (34 # rest))"
    by (rule scan_escape_char) (use 2 in \<open>simp_all add: ahead_ok_quote\<close>)
  then show ?case
    by (simp add: cons_result_def)
next
  case (3 c c2 s)
  let ?tail = "concat (map json_escape_char (c2 # s)) @ 34 # rest"
  have safe: "is_code_point c" "\<not> (is_high_surrogate c \<and> is_low_surrogate c2)" "editor_text (c2 # s)"
    using 3(2) by simp_all
  have c2: "is_code_point c2"
    using safe(3) by (cases s) simp_all
  have a: "is_high_surrogate c \<longrightarrow> ahead_ok ?tail"
    using ahead_ok_escape [OF c2, of "concat (map json_escape_char s) @ 34 # rest"] safe(2)
    by auto
  have "scanstring (json_escape_char c @ ?tail) = cons_result c (scanstring ?tail)"
    by (rule scan_escape_char [OF safe(1) a])
  also have "scanstring ?tail = Some (c2 # s, rest)"
    by (rule 3(1) [OF safe(3)])
  finally show ?case
    by (simp add: cons_result_def)
qed

lemma parse_string_dump:
  "editor_text s \<Longrightarrow> parse_string (json_dump_str s @ rest) = Some (s, rest)"
  by (simp add: parse_string_def json_dump_str_def scanstring_escaped)

lemma skip_ws_dump_str: "skip_ws (json_dump_str s @ rest) = json_dump_str s @ rest"
  by (simp add: json_dump_str_def)

lemma json_load_object:
  assumes "parse_members (length (json_dump_str k @ rest)) (json_dump_str k @ rest) = Some (d, rest')"
    and "skip_ws rest' = []"
  shows "json_load (123 # json_dump_str k @ rest) = Some d"
proof -
  obtain xs where xs: "json_dump_str k @ rest = 34 # xs"
    by (simp add: json_dump_str_def)
  show ?thesis
    using assms unfolding json_load_def xs by simp
qed

lemma json_roundtrip_two:
  assumes "editor_text k1" and "editor_text v1" and "editor_text k2" and "editor_text v2"
  shows "json_load (json_dump [(k1, v1), (k2, v2)]) = Some [(k1, v1), (k2, v2)]"
proof -
  let ?v2 = "json_dump_str v2 @ [125]"
  let ?k2 = "json_dump_str k2 @ [58, 32] @ ?v2"
  let ?v1 = "json_dump_str v1 @ [44, 32] @ ?k2"
  let ?rest = "[58, 32] @ ?v1"
  let ?body = "json_dump_str k1 @ ?rest"
  have dump: "json_dump [(k1, v1), (k2, v2)] = 123 # ?body"
    by (simp add: json_dump_def py_def)
  have m2: "parse_members (Suc n) ?k2 = Some ([(k2, v2)], [])" for n
    using parse_string_dump [OF assms(3), of "[58, 32] @ ?v2"] parse_string_dump [OF assms(4), of "[125]"]
    by (simp add: skip_ws_dump_str)
  have m1: "parse_members (Suc (Suc n)) ?body = Some ([(k1, v1), (k2, v2)], [])" for n
    using parse_string_dump [OF assms(1), of "[58, 32] @ ?v1"]
      parse_string_dump [OF assms(2), of "[44, 32] @ ?k2"] m2 [of n]
    by (simp add: skip_ws_dump_str cons_result_def del: parse_members.simps(2))
       (simp add: skip_ws_dump_str cons_result_def)
  obtain m where len: "length ?body = Suc (Suc m)"
    by (simp add: json_dump_str_def)
  have "parse_members (length ?body) ?body = Some ([(k1, v1), (k2, v2)], [])"
    unfolding len by (rule m1)
  then show ?thesis
    unfolding dump by (rule json_load_object) simp
qed

lemma json_roundtrip_staged:
  assumes "editor_text code"
  shows "json_load (json_dump [(py ''language'', py language), (py ''code'', code)])
         = Some [(py ''language'', py language), (py ''code'', code)]"
  by (rule json_roundtrip_two) (simp_all add: editor_text_py assms)

lemma hexdigit_lt: "d < 16 \<Longrightarrow> hexdigit d < 128"
  by (simp add: hexdigit_def)

lemma is_ascii_u_escape: "is_ascii (u_escape v)"
  by (simp add: is_ascii_def u_escape_def hexdigit_lt)

lemma is_ascii_append [simp]: "is_ascii (a @ b) \<longleftrightarrow> is_ascii a \<and> is_ascii b"
  by (simp add: is_ascii_def)

lemma is_ascii_escape_char: "is_ascii (json_escape_char c)"
  using is_ascii_u_escape by (auto simp: json_escape_char_def) (simp_all add: is_ascii_def)

lemma is_ascii_dump_str: "is_ascii (json_dump_str s)"
proof -
  have "is_ascii (concat (map json_escape_char s))"
    by (induction s) (simp_all add: is_ascii_escape_char, simp add: is_ascii_def)
  then show ?thesis
    by (simp add: json_dump_str_def is_ascii_def)
qed

lemma is_ascii_json_dump: "is_ascii (json_dump d)"
proof -
  have "is_ascii (json_dump_items d)"
    by (induction d rule: json_dump_items.induct)
       (simp_all add: is_ascii_dump_str, simp_all add: is_ascii_def py_def)
  then show ?thesis
    by (simp add: json_dump_def) (simp add: is_ascii_def py_def)
qed

lemma write_error_json_dump [simp]: "write_error E (json_dump d) = None"
  by (simp add: write_error_def is_ascii_json_dump)

section \<open>Statements in sequence\<close>

lemma then_io_Inr: "m w = (Inr x, w') \<Longrightarrow> then_io m f w = f x w'"
  by (simp add: then_io_def)

lemma then_io_Inl: "m w = (Inl e, w') \<Longrightarrow> then_io m f w = (Inl e, w')"
  by (simp add: then_io_def)

lemma then_io_InrD:
  assumes "then_io m f w = (Inr y, w')"
  obtains x w1 where "m w = (Inr x, w1)" "f x w1 = (Inr y, w')"
  using assms by (auto simp: then_io_def split: prod.splits sum.splits)

lemma then_io_lift [simp]:
  "then_io (lift_io (Inr x)) f w = f x w"
  "then_io (lift_io (Inl e)) f w = (Inl e, w)"
  "then_io (return_io x) f w = f x w"
  by (simp_all add: then_io_def lift_io_def return_io_def)

lemma then_io_subprocess_Inr:
  "subprocess_run E c w = (Inr p, w') \<Longrightarrow> then_io (subprocess_run E c) K w = K p w'"
  by (simp add: then_io_def)

lemma grows_return: "grows (return_io x)"
  by (simp add: grows_def return_io_def)

lemma grows_lift: "grows (lift_io r)"
  by (simp add: grows_def lift_io_def)

lemma grows_then:
  assumes "grows m" and "\<And>x. grows (f x)"
  shows "grows (then_io m f)"
  unfolding grows_def
proof
  fix w
  obtain r w1 where mw: "m w = (r, w1)" by (cases "m w")
  from assms(1) obtain e1 where e1: "trace w1 = trace w @ e1"
    unfolding grows_def using mw by (metis snd_conv)
  show "\<exists>ext. trace (snd (then_io m f w)) = trace w @ ext"
  proof (cases r)
    case (Inl e)
    then show ?thesis using mw e1 by (simp add: then_io_def)
  next
    case (Inr x)
    from assms(2) [of x] obtain e2 where "trace (snd (f x w1)) = trace w1 @ e2"
      unfolding grows_def by blast
    then show ?thesis using mw e1 Inr by (simp add: then_io_def)
  qed
qed

lemma grows_if: "grows a \<Longrightarrow> grows b \<Longrightarrow> grows (if c then a else b)"
  by simp

lemma grows_open_w: "grows (open_w p)"
  by (simp add: grows_def open_w_def)

lemma grows_write_close: "grows (write_close E p s)"
  by (simp add: grows_def write_close_def split: option.splits)

lemma grows_read_text: "grows (read_text p)"
  by (simp add: grows_def read_text_def split: option.splits)

lemma grows_json_load_file: "grows (json_load_file E u p)"
  unfolding json_load_file_def
  by (intro grows_then grows_read_text) (simp add: grows_lift grows_return split: option.splits)

lemma grows_os_remove: "grows (os_remove p)"
  by (simp add: grows_def os_remove_def split: option.splits)

lemma grows_cleanup_c: "grows cleanup_c"
  using grows_os_remove [of c_binary] by (simp add: grows_def cleanup_c_def)

lemma grows_spawn: "grows (spawn E argv)"
  by (simp add: grows_def spawn_def split: prod.splits)

lemma grows_launch: "grows (launch E argv)"
  using grows_spawn [of E argv] by (simp add: grows_def launch_def split: option.splits)

lemma grows_subprocess_run: "grows (subprocess_run E c)"
proof (cases c)
  case (Argv args)
  then show ?thesis
    using grows_launch [of E args] by (cases args) (auto simp: grows_def)
next
  case (Shell s)
  then show ?thesis
    using grows_launch [of E "[py ''/bin/sh'', py ''-c'', s]"] by (auto simp: grows_def)
qed

lemma grows_write_source: "grows (write_source E filename code_file)"
  unfolding write_source_def
  by (intro grows_then grows_open_w grows_json_load_file grows_lift grows_write_close)

lemma grows_execute_body: "grows (execute_body E language code_file)"
  unfolding execute_body_def
  by (intro grows_if grows_then grows_write_source grows_json_load_file grows_lift
        grows_subprocess_run grows_return grows_cleanup_c grows_os_remove)

lemma execute_code_trace:
  "\<exists>ext. trace (snd (execute_code E language code_file w)) = trace w @ ext"
proof -
  obtain r w' where b: "execute_body E language code_file w = (r, w')"
    by (cases "execute_body E language code_file w")
  have "\<exists>ext. trace w' = trace w @ ext"
    using grows_execute_body [of E language code_file] b unfolding grows_def by (metis snd_conv)
  then show ?thesis
    using b by (cases r) (simp_all add: execute_code_def)
qed

lemma execute_code_trace_eq:
  "trace (snd (execute_code E language code_file w)) = trace (snd (execute_body E language code_file w))"
  by (simp add: execute_code_def split: prod.splits sum.splits)

lemma execute_code_Inl:
  "fst (execute_body E language code_file w) = Inl e \<Longrightarrow>
   execute_code E language code_file w = (str_exn E e, snd (execute_body E language code_file w))"
  by (cases "execute_body E language code_file w") (simp add: execute_code_def)

lemma execute_code_Inr:
  "fst (execute_body E language code_file w) = Inr out \<Longrightarrow>
   execute_code E language code_file w = (out, snd (execute_body E language code_file w))"
  by (cases "execute_body E language code_file w") (simp add: execute_code_def)

section \<open>Paths and staging\<close>

lemma cmd_of_simps:
  "cmd_of ''Python'' = Inr ''python3''" "cmd_of ''C'' = Inr ''gcc''" "cmd_of ''C++'' = Inr ''g++''"
  "cmd_of ''Go'' = Inr ''go run''" "cmd_of ''Rust'' = Inr ''rustc''"
  by (simp_all add: cmd_of_def language_cmds_def)

lemma path_simps:
  "c_binary = ''appstack_temp/temp_exec''" "c_source ''C'' = ''appstack_temp/temp_code.c''"
  "c_source ''C++'' = ''appstack_temp/temp_code.cpp''" "rust_source = ''appstack_temp/temp_code.rs''"
  "go_source = ''appstack_temp/temp_code.go''"
  by (simp_all add: c_binary_def c_source_def rust_source_def go_source_def os_path_join_def
        TEMP_DIR_def)

lemma descriptor_path_eq: "descriptor_path language = ''appstack_temp/temp_code_'' @ language @ ''.json''"
  by (simp add: descriptor_path_def os_path_join_def TEMP_DIR_def)

lemma source_path_simps:
  "source_path ''C'' = c_source ''C''" "source_path ''C++'' = c_source ''C++''"
  "source_path ''Rust'' = rust_source" "source_path ''Go'' = go_source"
  by (simp_all add: source_path_def)

lemma source_path_neq_descriptor: "source_path l \<noteq> descriptor_path l'"
  by (simp add: source_path_def descriptor_path_eq rust_source_def go_source_def c_source_def
        os_path_join_def TEMP_DIR_def)

lemma plain_text_paths:
  "plain_text (py ''go run'')" "plain_text (py ''python3'')" "plain_text (py c_binary)"
  "plain_text (py (c_source ''C''))" "plain_text (py (c_source ''C++''))"
  "plain_text (py rust_source)" "plain_text (py go_source)" "plain_text (py rust_binary)"
  "plain_text (py ''code'')"
  by (simp_all add: plain_text_def py_def path_simps rust_binary_def)

declare arg_error.simps [simp del]

lemma arg_error_constants:
  "arg_error E [py ''rustc'', py rust_source] = None"
  "arg_error E [py rust_binary] = None"
  "arg_error E [py ''go run'', py go_source] = None"
  "arg_error E [py ''/bin/sh'', py ''-c'', py c_binary] = None"
  "arg_error E [py ''/bin/sh'', py ''-c'', py (''gcc '' @ c_source ''C'' @ '' -o '' @ c_binary)] = None"
  "arg_error E [py ''/bin/sh'', py ''-c'', py (''g++ '' @ c_source ''C++'' @ '' -o '' @ c_binary)] = None"
  by (simp_all add: arg_error.simps is_ascii_def py_def path_simps rust_binary_def)

lemma arg_error_python:
  "arg_error E [py ''python3'', py ''-c'', code] =
     (case (if is_ascii code then None else fsencode_error E code) of
        Some e \<Rightarrow> Some e
      | None \<Rightarrow> if 0 \<in> set code then Some (ValueError (py ''embedded null byte'')) else None)"
  by (simp add: arg_error.simps is_ascii_def py_def split: option.splits)

lemma save_code_ok:
  "descriptor_path language \<notin> readonly w \<Longrightarrow>
   save_code E language code w = (Inr (descriptor_path language), staged language code w)"
  by (simp add: save_code_def staged_def Let_def then_io_def open_w_def write_close_def return_io_def)

lemma save_code_denied:
  "descriptor_path language \<in> readonly w \<Longrightarrow>
   save_code E language code w = (Inl (PermissionError (py (descriptor_path language))), w)"
  by (simp add: save_code_def Let_def then_io_def open_w_def)

lemma staged_files:
  "files (staged language code w) (descriptor_path language)
   = Some (json_dump [(py ''language'', py language), (py ''code'', code)])"
  "files (staged language code w) (source_path l) = files w (source_path l)"
  "readonly (staged language code w) = readonly w"
  "trace (staged language code w) = trace w @ [Wrote (descriptor_path language)
      (json_dump [(py ''language'', py language), (py ''code'', code)])]"
  using source_path_neq_descriptor [of l language] by (simp_all add: staged_def)

lemma json_load_file_staged:
  assumes "files w code_file = Some (json_dump [(py ''language'', py language), (py ''code'', code)])"
    and "editor_text code"
  shows "json_load_file E u code_file w = (Inr [(py ''language'', py language), (py ''code'', code)], w)"
  using assms(1)
  by (simp add: json_load_file_def then_io_def read_text_def json_roundtrip_staged [OF assms(2)]
        return_io_def)

lemma dict_get_code:
  "dict_get [(py ''language'', py language), (py ''code'', code)] (py ''code'') = Inr code"
  by (simp add: dict_get_def)

lemma then_io_load_staged:
  assumes "files w code_file = Some (json_dump [(py ''language'', py language), (py ''code'', code)])"
    and "editor_text code"
  shows "then_io (json_load_file E u code_file) K w
         = K [(py ''language'', py language), (py ''code'', code)] w"
  by (simp add: then_io_def json_load_file_staged [OF assms])

lemma write_source_staged:
  assumes "files w code_file = Some (json_dump [(py ''language'', py language), (py ''code'', code)])"
    and "editor_text code"
    and "filename \<noteq> code_file" and "filename \<notin> readonly w" and "write_error E code = None"
  shows "write_source E filename code_file w
         = (Inr (), w\<lparr>files := (files w)(filename \<mapsto> code), trace := trace w @ [Wrote filename code]\<rparr>)"
  using assms(1,3,4,5)
  by (simp add: write_source_def then_io_def open_w_def json_load_file_def read_text_def
        json_roundtrip_staged [OF assms(2)] return_io_def lift_io_def dict_get_def write_close_def)

lemma write_source_unencodable:
  assumes "files w code_file = Some (json_dump [(py ''language'', py language), (py ''code'', code)])"
    and "editor_text code"
    and "filename \<noteq> code_file" and "filename \<notin> readonly w" and "write_error E code = Some e"
  shows "write_source E filename code_file w = (Inl e, w\<lparr>files := (files w)(filename \<mapsto> [])\<rparr>)"
  using assms(1,3,4,5)
  by (simp add: write_source_def then_io_def open_w_def json_load_file_def read_text_def
        json_roundtrip_staged [OF assms(2)] return_io_def lift_io_def dict_get_def write_close_def)

lemma then_io_write_source_staged:
  assumes "files w code_file = Some (json_dump [(py ''language'', py language), (py ''code'', code)])"
    and "editor_text code"
    and "filename \<noteq> code_file" and "filename \<notin> readonly w" and "write_error E code = None"
  shows "then_io (write_source E filename code_file) K w
         = K () (w\<lparr>files := (files w)(filename \<mapsto> code), trace := trace w @ [Wrote filename code]\<rparr>)"
  by (simp add: then_io_def write_source_staged [OF assms])

lemma then_io_write_source_Inr:
  "write_source E f cf w = (Inr (), w1) \<Longrightarrow> then_io (write_source E f cf) K w = K () w1"
  by (simp add: then_io_def)

lemma then_io_write_source_Inl:
  "write_source E f cf w = (Inl e, w1) \<Longrightarrow> then_io (write_source E f cf) K w = (Inl e, w1)"
  by (simp add: then_io_def)

lemma write_source_denied:
  "filename \<in> readonly w \<Longrightarrow>
   write_source E filename code_file w = (Inl (PermissionError (py filename)), w)"
  by (simp add: write_source_def then_io_def open_w_def)

lemma write_source_Inr_trace:
  assumes "write_source E f cf w = (Inr u, w1)"
  shows "\<exists>code. trace w1 = trace w @ [Wrote f code]"
proof -
  from assms [unfolded write_source_def] obtain u1 wa d wb code wc where
    a: "open_w f w = (Inr u1, wa)" "json_load_file E AsFileText cf wa = (Inr d, wb)"
       "lift_io (dict_get d (py ''code'')) wb = (Inr code, wc)" "write_close E f code wc = (Inr u, w1)"
    by (elim then_io_InrD)
  have "trace wa = trace w"
    using a(1) by (auto simp: open_w_def split: if_splits)
  moreover have "trace wb = trace wa"
    using a(2) by (auto simp: json_load_file_def then_io_def read_text_def return_io_def lift_io_def
        split: option.splits)
  moreover have "trace wc = trace wb"
    using a(3) by (simp add: lift_io_def)
  moreover have "trace w1 = trace wc @ [Wrote f code]"
    using a(4) by (auto simp: write_close_def split: option.splits)
  ultimately show ?thesis by simp
qed

lemma subprocess_run_Argv_trace:
  "subprocess_run E (Argv (p # a)) w = (Inr cp, w2) \<Longrightarrow> trace w2 = trace w @ [Ran (p # a)]"
  by (auto simp: launch_def spawn_def split: option.splits prod.splits)

lemma launch_ok:
  "launch_error E argv (files w) = None \<Longrightarrow> launch E argv w = spawn E argv w"
  by (simp add: launch_def)

lemma launch_failed:
  "launch_error E argv (files w) = Some e \<Longrightarrow> launch E argv w = (Inl e, w)"
  by (simp add: launch_def)

section \<open>The branches of the execution\<close>

lemma python_body:
  assumes "files w code_file = Some (json_dump [(py ''language'', py language), (py ''code'', code)])"
    and "editor_text code"
  shows "execute_body E ''Python'' code_file w
         = then_io (subprocess_run E (Argv [py ''python3'', py ''-c'', code]))
             (\<lambda>process. return_io (proc_output process)) w"
  by (simp add: execute_body_def then_io_load_staged [OF assms] cmd_of_simps dict_get_code)

lemma python_code_trace:
  assumes "files w code_file = Some (json_dump [(py ''language'', py language), (py ''code'', code)])"
    and "editor_text code"
  shows "trace (snd (execute_code E ''Python'' code_file w))
         = trace w @ (if launch_error E [py ''python3'', py ''-c'', code] (files w) = None
                      then [Ran [py ''python3'', py ''-c'', code]] else [])"
  unfolding execute_code_trace_eq python_body [OF assms]
  by (auto simp: then_io_def launch_def spawn_def return_io_def split: prod.splits sum.splits)

lemma python_not_launched:
  assumes "files w code_file = Some (json_dump [(py ''language'', py language), (py ''code'', code)])"
    and "editor_text code"
    and "launch_error E [py ''python3'', py ''-c'', code] (files w) = Some e"
  shows "execute_code E ''Python'' code_file w = (str_exn E e, w)"
  using assms(3)
  by (simp add: execute_code_def python_body [OF assms(1,2)]) (simp add: then_io_def launch_def)

lemma then_write_source_trace:
  assumes "files w code_file = Some (json_dump [(py ''language'', py language), (py ''code'', code)])"
    and "editor_text code"
    and "filename \<noteq> code_file" and "filename \<notin> readonly w" and "write_error E code = None"
    and "grows (K ())"
  shows "\<exists>ext. trace (snd (then_io (write_source E filename code_file) K w))
               = trace w @ Wrote filename code # ext"
proof -
  let ?w1 = "w\<lparr>files := (files w)(filename \<mapsto> code), trace := trace w @ [Wrote filename code]\<rparr>"
  from assms(6) obtain ext where "trace (snd (K () ?w1)) = trace ?w1 @ ext"
    unfolding grows_def by blast
  then show ?thesis
    by (simp add: then_io_write_source_staged [OF assms(1-5)])
qed

lemma source_body_trace:
  assumes "language \<in> {''C'', ''C++'', ''Rust'', ''Go''}"
    and "files w code_file = Some (json_dump [(py ''language'', py l), (py ''code'', code)])"
    and "editor_text code"
    and "source_path language \<noteq> code_file" and "source_path language \<notin> readonly w"
    and "write_error E code = None"
  shows "\<exists>ext. trace (snd (execute_body E language code_file w))
               = trace w @ Wrote (source_path language) code # ext"
proof -
  note r = then_write_source_trace [OF assms(2,3)]
  note g = grows_if grows_then grows_lift grows_subprocess_run grows_return grows_cleanup_c
    grows_os_remove
  consider "language = ''C''" | "language = ''C++''" | "language = ''Rust''" | "language = ''Go''"
    using assms(1) by auto
  then show ?thesis
  proof cases
    case 1
    have a: "c_source ''C'' \<noteq> code_file" "c_source ''C'' \<notin> readonly w"
      using assms(4,5) unfolding 1 source_path_simps by auto
    show ?thesis
      unfolding 1 source_path_simps
      by (simp add: execute_body_def) (rule r [OF a assms(6)], intro g)
  next
    case 2
    have a: "c_source ''C++'' \<noteq> code_file" "c_source ''C++'' \<notin> readonly w"
      using assms(4,5) unfolding 2 source_path_simps by auto
    show ?thesis
      unfolding 2 source_path_simps
      by (simp add: execute_body_def) (rule r [OF a assms(6)], intro g)
  next
    case 3
    have a: "rust_source \<noteq> code_file" "rust_source \<notin> readonly w"
      using assms(4,5) unfolding 3 source_path_simps by auto
    show ?thesis
      unfolding 3 source_path_simps
      by (simp add: execute_body_def) (rule r [OF a assms(6)], intro g)
  next
    case 4
    have a: "go_source \<noteq> code_file" "go_source \<notin> readonly w"
      using assms(4,5) unfolding 4 source_path_simps by auto
    show ?thesis
      unfolding 4 source_path_simps
      by (simp add: execute_body_def) (rule r [OF a assms(6)], intro g)
  qed
qed

lemma source_unencodable:
  assumes "language \<in> {''C'', ''C++'', ''Rust'', ''Go''}"
    and "files w code_file = Some (json_dump [(py ''language'', py l), (py ''code'', code)])"
    and "editor_text code"
    and "source_path language \<noteq> code_file" and "source_path language \<notin> readonly w"
    and "write_error E code = Some e"
  shows "execute_code E language code_file w
         = (str_exn E e, w\<lparr>files := (files w)(source_path language \<mapsto> [])\<rparr>)"
proof -
  note ws = write_source_unencodable [OF assms(2-6)]
  consider "language = ''C''" | "language = ''C++''" | "language = ''Rust''" | "language = ''Go''"
    using assms(1) by auto
  then have "execute_body E language code_file w
        = (Inl e, w\<lparr>files := (files w)(source_path language \<mapsto> [])\<rparr>)"
  proof cases
    case 1
    show ?thesis
      unfolding 1 source_path_simps
      by (simp add: execute_body_def then_io_write_source_Inl [OF ws [unfolded 1 source_path_simps]])
  next
    case 2
    show ?thesis
      unfolding 2 source_path_simps
      by (simp add: execute_body_def then_io_write_source_Inl [OF ws [unfolded 2 source_path_simps]])
  next
    case 3
    show ?thesis
      unfolding 3 source_path_simps
      by (simp add: execute_body_def then_io_write_source_Inl [OF ws [unfolded 3 source_path_simps]])
  next
    case 4
    show ?thesis
      unfolding 4 source_path_simps
      by (simp add: execute_body_def then_io_write_source_Inl [OF ws [unfolded 4 source_path_simps]])
  qed
  then show ?thesis
    by (simp add: execute_code_def)
qed

lemma source_denied:
  assumes "language \<in> {''C'', ''C++'', ''Rust'', ''Go''}" and "source_path language \<in> readonly w"
  shows "execute_code E language code_file w
         = (str_exn E (PermissionError (py (source_path language))), w)"
proof -
  have "execute_body E language code_file w = (Inl (PermissionError (py (source_path language))), w)"
    using assms
    by (auto simp: execute_body_def source_path_simps then_io_Inl [OF write_source_denied])
  then show ?thesis
    by (simp add: execute_code_def)
qed

lemma compile_failure_run:
  assumes "language \<in> {''C'', ''C++'', ''Rust''}"
    and "write_source E (source_path language) code_file w = (Inr (), w1)"
    and "subprocess_run E (compile_command language) w1 = (Inr cp, w2)"
    and "returncode cp \<noteq> 0"
  shows "execute_code E language code_file w =
     (if language \<noteq> ''Rust'' \<and> files w2 c_binary \<noteq> None
      then (if c_binary \<in> readonly w2 then (str_exn E (PermissionError (py c_binary)), w2)
            else (stderr cp, w2\<lparr>files := (files w2)(c_binary := None),
                                trace := trace w2 @ [Removed c_binary]\<rparr>))
      else (stderr cp, w2))"
proof -
  consider "language = ''C''" | "language = ''C++''" | "language = ''Rust''"
    using assms(1) by auto
  then show ?thesis
  proof cases
    case 1
    have ws: "write_source E (c_source ''C'') code_file w = (Inr (), w1)"
      using assms(2) unfolding 1 source_path_simps .
    have cp: "subprocess_run E (Shell (py (''gcc '' @ c_source ''C'' @ '' -o '' @ c_binary))) w1 = (Inr cp, w2)"
      using assms(3) unfolding 1 by (simp add: compile_command_def)
    have "execute_body E ''C'' code_file w = then_io cleanup_c (\<lambda>_. return_io (stderr cp)) w2"
      using assms(4) cp
      by (simp add: execute_body_def then_io_write_source_Inr [OF ws] cmd_of_simps then_io_subprocess_Inr
            del: subprocess_run.simps)
    then show ?thesis
      unfolding 1
      by (auto simp: execute_code_def then_io_def cleanup_c_def os_path_exists_def os_remove_def
            return_io_def)
  next
    case 2
    have ws: "write_source E (c_source ''C++'') code_file w = (Inr (), w1)"
      using assms(2) unfolding 2 source_path_simps .
    have cp: "subprocess_run E (Shell (py (''g++ '' @ c_source ''C++'' @ '' -o '' @ c_binary))) w1 = (Inr cp, w2)"
      using assms(3) unfolding 2 by (simp add: compile_command_def)
    have "execute_body E ''C++'' code_file w = then_io cleanup_c (\<lambda>_. return_io (stderr cp)) w2"
      using assms(4) cp
      by (simp add: execute_body_def then_io_write_source_Inr [OF ws] cmd_of_simps then_io_subprocess_Inr
            del: subprocess_run.simps)
    then show ?thesis
      unfolding 2
      by (auto simp: execute_code_def then_io_def cleanup_c_def os_path_exists_def os_remove_def
            return_io_def)
  next
    case 3
    have ws: "write_source E rust_source code_file w = (Inr (), w1)"
      using assms(2) unfolding 3 source_path_simps .
    have cp: "subprocess_run E (Argv [py ''rustc'', py rust_source]) w1 = (Inr cp, w2)"
      using assms(3) unfolding 3 by (simp add: compile_command_def)
    have "execute_body E ''Rust'' code_file w = (Inr (stderr cp), w2)"
      using assms(4) cp
      by (simp add: execute_body_def then_io_write_source_Inr [OF ws] then_io_subprocess_Inr return_io_def
            del: subprocess_run.simps)
    then show ?thesis
      unfolding 3 by (simp add: execute_code_def)
  qed
qed

lemma cleanup_c_Inr: "cleanup_c w = (Inr u, w') \<Longrightarrow> files w' c_binary = None"
  by (auto simp: cleanup_c_def os_path_exists_def os_remove_def split: if_splits option.splits)

lemma os_remove_Inr: "os_remove p w = (Inr u, w') \<Longrightarrow> files w' p = None"
  by (auto simp: os_remove_def split: if_splits option.splits)

lemma c_body_Inr:
  assumes "language = ''C'' \<or> language = ''C++''"
    and "execute_body E language code_file w = (Inr out, w')"
  shows "files w' c_binary = None"
proof -
  have b: "execute_body E language code_file =
        then_io (write_source E (c_source language) code_file) (\<lambda>_.
        then_io (lift_io (cmd_of language)) (\<lambda>cmd.
        then_io (subprocess_run E
                   (Shell (py (cmd @ '' '' @ c_source language @ '' -o '' @ c_binary)))) (\<lambda>compile_process.
        then_io (if returncode compile_process = 0
                 then then_io (subprocess_run E (Shell (py c_binary))) (\<lambda>run_process.
                      return_io (proc_output run_process))
                 else return_io (stderr compile_process)) (\<lambda>output.
        then_io cleanup_c (\<lambda>_.
        return_io output)))))"
    using assms(1) by (auto simp: execute_body_def)
  from assms(2) [unfolded b] obtain u1 w1 cmd w2 cp w3 outp w4 u5 w5 where
    "cleanup_c w4 = (Inr u5, w5)" "return_io outp w5 = (Inr out, w')"
    by (elim then_io_InrD) 
  then show ?thesis
    using cleanup_c_Inr by (auto simp: return_io_def)
qed

lemma rust_body_Inr:
  assumes "execute_body E ''Rust'' code_file w = (Inr out, w')"
    and "Ran [py rust_binary] \<in> set (drop (length (trace w)) (trace w'))"
  shows "files w' rust_binary = None"
proof -
  have b: "execute_body E ''Rust'' code_file =
        then_io (write_source E rust_source code_file) (\<lambda>_.
        then_io (subprocess_run E (Argv [py ''rustc'', py rust_source])) (\<lambda>compile_process.
        if returncode compile_process = 0
        then then_io (subprocess_run E (Argv [py rust_binary])) (\<lambda>run_process.
             then_io (os_remove rust_binary) (\<lambda>_.
             return_io (proc_output run_process)))
        else return_io (stderr compile_process)))"
    by (simp add: execute_body_def)
  from assms(1) [unfolded b] obtain u1 w1 cp w2 where
    a: "write_source E rust_source code_file w = (Inr u1, w1)"
       "subprocess_run E (Argv [py ''rustc'', py rust_source]) w1 = (Inr cp, w2)"
       "(if returncode cp = 0
         then then_io (subprocess_run E (Argv [py rust_binary])) (\<lambda>run_process.
              then_io (os_remove rust_binary) (\<lambda>_.
              return_io (proc_output run_process)))
         else return_io (stderr cp)) w2 = (Inr out, w')"
    by (elim then_io_InrD)
  show ?thesis
  proof (cases "returncode cp = 0")
    case True
    with a(3) obtain rp w3 u4 w4 where
      "os_remove rust_binary w3 = (Inr u4, w4)" "return_io (proc_output rp) w4 = (Inr out, w')"
      by (auto elim!: then_io_InrD)
    then show ?thesis
      using os_remove_Inr by (auto simp: return_io_def)
  next
    case False
    with a(3) have w': "w' = w2" by (simp add: return_io_def)
    from write_source_Inr_trace [OF a(1)] obtain code where
      "trace w1 = trace w @ [Wrote rust_source code]" by blast
    with subprocess_run_Argv_trace [OF a(2)] have
      "drop (length (trace w)) (trace w2) = [Wrote rust_source code, Ran [py ''rustc'', py rust_source]]"
      by simp
    with assms(2) show ?thesis
      unfolding w' by (simp add: rust_binary_def)
  qed
qed

lemma no_surrogate_py: "\<not> list_ex is_surrogate (py s)"
  using py_lt_256 [of _ s] by (fastforce simp: list_ex_iff is_surrogate_def)

lemma sample_write_error:
  "\<not> list_ex is_surrogate code \<Longrightarrow> write_error (sample_tools M) code = None"
  "\<not> list_ex is_surrogate code \<Longrightarrow> write_error (broken_tools M) code = None"
  by (simp_all add: write_error_def sample_tools_def broken_tools_def utf8_locale_def)

lemma sample_behave:
  "behave (sample_tools M) argv fs =
     (if take 1 argv = [py ''rustc'']
      then (Inr \<lparr>returncode = 0, stdout = [], stderr = []\<rparr>, fs(rust_binary \<mapsto> py ''ELF''))
      else if take 2 argv = [py ''/bin/sh'', py ''-c''] \<and> argv \<noteq> [py ''/bin/sh'', py ''-c'', py c_binary]
      then (Inr \<lparr>returncode = 0, stdout = [], stderr = []\<rparr>, fs(c_binary \<mapsto> py ''ELF''))
      else (Inr \<lparr>returncode = 0, stdout = py ''Hello'', stderr = []\<rparr>, fs))"
  "behave (broken_tools M) argv fs = (Inr \<lparr>returncode = 1, stdout = [], stderr = py ''error''\<rparr>, fs)"
  by (simp_all add: sample_tools_def broken_tools_def)

lemma sample_exec_error:
  "exec_error (sample_tools M) = installed" "exec_error (broken_tools M) = installed"
  by (simp_all add: sample_tools_def broken_tools_def)

lemma installed_simps:
  "installed (py ''/bin/sh'' # args) fs = None"
  "installed (py ''python3'' # args) fs = None"
  "installed (py ''rustc'' # args) fs = None"
  "installed (py ''go run'' # args) fs = Some (FileNotFoundError (py ''go run''))"
  "installed (py rust_binary # args) fs
     = (if fs rust_binary \<noteq> None then None else Some (FileNotFoundError (py rust_binary)))"
  by (simp_all add: installed_def rust_binary_def)

lemma sample_launch_python:
  assumes "\<not> list_ex is_surrogate code"
  shows "launch_error (sample_tools M) [py ''python3'', py ''-c'', code] fs
         = (if 0 \<in> set code then Some (ValueError (py ''embedded null byte'')) else None)"
  using assms
  by (simp add: launch_error_def arg_error_python sample_tools_def utf8_locale_def installed_simps)

lemma sample_c_run:
  assumes "editor_text code" and "\<not> list_ex is_surrogate code"
  shows "execute_body (sample_tools M) ''C'' (descriptor_path ''C'') (staged ''C'' code empty_world)
   = (Inr (py ''Hello''),
      (staged ''C'' code empty_world)
        \<lparr>files := (files (staged ''C'' code empty_world))(c_source ''C'' \<mapsto> code),
         trace := trace (staged ''C'' code empty_world)
                  @ [Wrote (c_source ''C'') code,
                     Ran [py ''/bin/sh'', py ''-c'', py (''gcc '' @ c_source ''C'' @ '' -o '' @ c_binary)],
                     Ran [py ''/bin/sh'', py ''-c'', py c_binary],
                     Removed c_binary]\<rparr>)"
proof -
  let ?w = "staged ''C'' code empty_world"
  have ro: "c_source ''C'' \<notin> readonly ?w"
    by (simp add: staged_files empty_world_def)
  have ne: "c_source ''C'' \<noteq> descriptor_path ''C''"
    using source_path_neq_descriptor [of "''C''" "''C''"] by (simp add: source_path_simps)
  note we = sample_write_error(1) [OF assms(2), of M]
  show ?thesis
    by (simp add: execute_body_def then_io_write_source_staged [OF staged_files(1) assms(1) ne ro we]
          cmd_of_simps)
       (simp add: then_io_def launch_def launch_error_def arg_error.simps is_ascii_def py_def
          sample_exec_error installed_def spawn_def sample_behave path_simps
          cleanup_c_def os_path_exists_def
          os_remove_def return_io_def proc_output_def staged_def empty_world_def descriptor_path_eq
          fun_upd_twist)
qed

lemma sample_rust_run:
  assumes "editor_text code" and "\<not> list_ex is_surrogate code"
  shows "execute_body (sample_tools M) ''Rust'' (descriptor_path ''Rust'') (staged ''Rust'' code empty_world)
   = (Inr (py ''Hello''),
      (staged ''Rust'' code empty_world)
        \<lparr>files := (files (staged ''Rust'' code empty_world))(rust_source \<mapsto> code),
         trace := trace (staged ''Rust'' code empty_world)
                  @ [Wrote rust_source code, Ran [py ''rustc'', py rust_source], Ran [py rust_binary],
                     Removed rust_binary]\<rparr>)"
proof -
  let ?w = "staged ''Rust'' code empty_world"
  have ro: "rust_source \<notin> readonly ?w"
    by (simp add: staged_files empty_world_def)
  have ne: "rust_source \<noteq> descriptor_path ''Rust''"
    using source_path_neq_descriptor [of "''Rust''" "''Rust''"] by (simp add: source_path_simps)
  note we = sample_write_error(1) [OF assms(2), of M]
  show ?thesis
    by (simp add: execute_body_def then_io_write_source_staged [OF staged_files(1) assms(1) ne ro we])
       (simp add: then_io_def launch_def launch_error_def arg_error.simps is_ascii_def py_def
          sample_exec_error installed_def spawn_def sample_behave path_simps rust_binary_def
          os_remove_def return_io_def proc_output_def staged_def empty_world_def descriptor_path_eq
          fun_upd_twist)
qed

lemma sample_python_run:
  assumes "editor_text code" and "\<not> list_ex is_surrogate code" and "0 \<notin> set code"
  shows "execute_code (sample_tools M) ''Python'' (descriptor_path ''Python'') (staged ''Python'' code empty_world)
   = (py ''Hello'',
      (staged ''Python'' code empty_world)
        \<lparr>trace := trace (staged ''Python'' code empty_world) @ [Ran [py ''python3'', py ''-c'', code]]\<rparr>)"
  using assms(3)
  by (simp add: execute_code_def python_body [OF staged_files(1) assms(1)])
     (simp add: then_io_def launch_def sample_launch_python [OF assms(2)] spawn_def sample_behave
        return_io_def proc_output_def)

section \<open>The slot\<close>

lemma run_code_dispatched:
  assumes "code_editors s (current_tab s) = Some code"
  shows "dispatched (snd (run_code E s)) = dispatched s @ [(current_tab s, code)]
       \<and> run_timer (snd (run_code E s)) = None
       \<and> current_tab (snd (run_code E s)) = current_tab s
       \<and> code_editors (snd (run_code E s)) = code_editors s"
  using assms
  by (simp add: run_code_def Let_def run_gui_preview_def split: prod.splits sum.splits)

lemma run_code_routed:
  assumes "code_editors s (current_tab s) = Some code"
    and "descriptor_path (current_tab s) \<notin> readonly (outside s)"
  shows "run_code E s =
     (None,
      if is_gui_code (current_tab s) code
      then run_gui_preview code
             (s\<lparr>run_timer := None, dispatched := dispatched s @ [(current_tab s, code)],
                outside := staged (current_tab s) code (outside s)\<rparr>)
      else s\<lparr>run_timer := None, dispatched := dispatched s @ [(current_tab s, code)],
             outside := snd (execute_code E (current_tab s) (descriptor_path (current_tab s))
                               (staged (current_tab s) code (outside s))),
             output_area := fst (execute_code E (current_tab s) (descriptor_path (current_tab s))
                               (staged (current_tab s) code (outside s)))\<rparr>)"
  using assms
  by (simp add: run_code_def Let_def save_code_ok split: prod.splits)

lemma run_code_staging_denied:
  assumes "code_editors s (current_tab s) = Some code"
    and "descriptor_path (current_tab s) \<in> readonly (outside s)"
  shows "run_code E s =
     (Some (PermissionError (py (descriptor_path (current_tab s)))),
      s\<lparr>run_timer := None, dispatched := dispatched s @ [(current_tab s, code)]\<rparr>)"
  using assms by (simp add: run_code_def Let_def save_code_denied)

lemma is_gui_code_iff:
  "is_gui_code lang code \<longleftrightarrow>
     lang = ''Python'' \<and> ((\<exists>pre post. code = pre @ py ''Tkinter'' @ post)
                        \<or> (\<exists>pre post. code = pre @ py ''PyQt6'' @ post))"
  unfolding is_gui_code_def py_in_iff ..

lemma init_editors:
  "code_editors (init_app w) =
     [''Python'' \<mapsto> [], ''Rust'' \<mapsto> [], ''Go'' \<mapsto> [], ''C'' \<mapsto> [], ''C++'' \<mapsto> []]"
  by (rule ext) (simp add: init_app_def language_cmds_def)

section \<open>The countdown\<close>

lemma run_events_append:
  "run_events E (xs @ ys) s =
     (case run_events E xs s of (Some e, s') \<Rightarrow> (Some e, s') | (None, s') \<Rightarrow> run_events E ys s')"
  by (induction xs arbitrary: s) (auto split: prod.splits option.splits)

lemma ticks_stopped:
  "run_timer s = None \<Longrightarrow> run_events E (replicate n Tick) s = (None, s)"
  by (induction n) (simp_all add: tick_def)

lemma ticks_countdown:
  "run_timer s = Some r \<Longrightarrow> n < r \<Longrightarrow>
   run_events E (replicate n Tick) s = (None, s\<lparr>run_timer := Some (r - n)\<rparr>)"
proof (induction n arbitrary: s r)
  case 0
  then show ?case by simp
next
  case (Suc n)
  have "run_events E (replicate n Tick) (s\<lparr>run_timer := Some (r - 1)\<rparr>)
        = (None, s\<lparr>run_timer := Some (r - 1)\<rparr>\<lparr>run_timer := Some (r - 1 - n)\<rparr>)"
    using Suc.prems by (intro Suc.IH) auto
  then show ?case
    using Suc.prems by (simp add: tick_def)
qed

lemma tick_fires:
  assumes "run_timer s = Some r" "r \<le> 1" "code_editors s (current_tab s) = Some code"
  shows "dispatched (snd (tick E s)) = dispatched s @ [(current_tab s, code)]
       \<and> run_timer (snd (tick E s)) = None"
  using assms run_code_dispatched [of "s\<lparr>run_timer := Some INTERVAL\<rparr>" code E]
  by (simp add: tick_def)

lemma ticks_fire_once:
  assumes "run_timer s = Some r" "r \<le> n" "code_editors s (current_tab s) = Some code" "0 < n"
  shows "dispatched (snd (run_events E (replicate n Tick) s)) = dispatched s @ [(current_tab s, code)]"
proof -
  define k where "k = r - 1"
  define m where "m = n - k - 1"
  have n: "n = k + Suc m"
    unfolding m_def k_def using assms(2,4) by arith
  define s1 where "s1 = (if k = 0 then s else s\<lparr>run_timer := Some (r - k)\<rparr>)"
  have a: "run_events E (replicate k Tick) s = (None, s1)"
  proof (cases "k = 0")
    case True
    then show ?thesis by (simp add: s1_def)
  next
    case False
    then have "k < r" unfolding k_def by simp
    then show ?thesis
      using ticks_countdown [OF assms(1), of k E] False by (simp add: s1_def)
  qed
  obtain r1 where r1: "run_timer s1 = Some r1" "r1 \<le> 1"
    using assms(1) unfolding s1_def k_def by (cases "r - 1 = 0") auto
  have ed: "code_editors s1 (current_tab s1) = Some code" "dispatched s1 = dispatched s"
    "current_tab s1 = current_tab s"
    using assms(3) unfolding s1_def by auto
  obtain x s2 where t: "tick E s1 = (x, s2)" by (cases "tick E s1")
  have f: "dispatched s2 = dispatched s @ [(current_tab s, code)]" "run_timer s2 = None"
    using tick_fires [OF r1 ed(1), of E] t ed by auto
  have "run_events E (replicate (Suc m) Tick) s1 = (case x of Some e \<Rightarrow> (Some e, s2) | None \<Rightarrow> (None, s2))"
    using t ticks_stopped [OF f(2), of E m] by (cases x) auto
  then have "snd (run_events E (replicate (Suc m) Tick) s1) = s2"
    by (cases x) auto
  then show ?thesis
    unfolding n replicate_add run_events_append a using f by simp
qed

lemma update_proc_fields:
  "run_timer (update_proc i f s) = run_timer s \<and> current_tab (update_proc i f s) = current_tab s
   \<and> code_editors (update_proc i f s) = code_editors s \<and> dispatched (update_proc i f s) = dispatched s
   \<and> outside (update_proc i f s) = outside s \<and> output_area (update_proc i f s) = output_area s"
  by (simp add: update_proc_def)

lemma on_gui_finished_fields:
  "run_timer (on_gui_finished s) = run_timer s \<and> current_tab (on_gui_finished s) = current_tab s
   \<and> code_editors (on_gui_finished s) = code_editors s \<and> dispatched (on_gui_finished s) = dispatched s
   \<and> outside (on_gui_finished s) = outside s \<and> output_area (on_gui_finished s) = output_area s"
  by (simp add: on_gui_finished_def)

lemma step_passive:
  assumes "ev = ClearClicked \<or> ev = ProcStarted i \<or> ev = ProcFinished i st \<or> ev = ProcFailedToStart i"
  shows "fst (step E ev s) = None \<and> run_timer (snd (step E ev s)) = run_timer s
       \<and> current_tab (snd (step E ev s)) = current_tab s
       \<and> code_editors (snd (step E ev s)) = code_editors s
       \<and> dispatched (snd (step E ev s)) = dispatched s
       \<and> outside (snd (step E ev s)) = outside s"
  using assms
  by (auto simp: clear_output_def update_proc_fields on_gui_finished_fields Let_def
           split: option.splits)

lemma burst_quiet:
  assumes "burst_outcome r0 (current_tab s) (code_editors s) evs = Some (r, tab, eds)"
    and "run_timer s = Some r0"
  shows "\<exists>s'. run_events E evs s = (None, s') \<and> run_timer s' = Some r \<and> current_tab s' = tab
          \<and> code_editors s' = eds \<and> dispatched s' = dispatched s \<and> outside s' = outside s"
  using assms
proof (induction evs arbitrary: s r0)
  case Nil
  then show ?case by simp
next
  case (Cons ev evs)
  obtain x s1 where st: "step E ev s = (x, s1)" by (cases "step E ev s")
  have "\<exists>r1. x = None \<and> run_timer s1 = Some r1 \<and> dispatched s1 = dispatched s \<and> outside s1 = outside s
        \<and> burst_outcome r1 (current_tab s1) (code_editors s1) evs = Some (r, tab, eds)"
  proof (cases ev)
    case (TextChanged lang t)
    then show ?thesis
      using Cons.prems st by (auto simp: on_code_change_def split: if_splits)
  next
    case (TabSelected lang)
    then show ?thesis
      using Cons.prems st by (auto split: if_splits)
  next
    case ClearClicked
    then show ?thesis
      using Cons.prems st step_passive [of ev 0 NormalExit E s] by auto
  next
    case Tick
    then show ?thesis
      using Cons.prems st by (auto simp: tick_def split: if_splits)
  next
    case (ProcStarted i)
    then show ?thesis
      using Cons.prems st step_passive [of ev i NormalExit E s] by auto
  next
    case (ProcFinished i e)
    then show ?thesis
      using Cons.prems st step_passive [of ev i e E s] by auto
  next
    case (ProcFailedToStart i)
    then show ?thesis
      using Cons.prems st step_passive [of ev i NormalExit E s] by auto
  qed
  then obtain r1 where a: "x = None" "run_timer s1 = Some r1" "dispatched s1 = dispatched s"
      "outside s1 = outside s"
      "burst_outcome r1 (current_tab s1) (code_editors s1) evs = Some (r, tab, eds)"
    by blast
  from Cons.IH [OF a(5) a(2)] obtain s' where
    "run_events E evs s1 = (None, s')" "run_timer s' = Some r" "current_tab s' = tab"
    "code_editors s' = eds" "dispatched s' = dispatched s1" "outside s' = outside s1"
    by blast
  then show ?case
    using st a by simp
qed

lemma burst_outcome_positive:
  "burst_outcome r0 tab eds evs = Some (r, tab', eds') \<Longrightarrow> 0 < r0 \<Longrightarrow> 0 < r"
proof (induction evs arbitrary: r0 tab eds)
  case Nil
  then show ?case by simp
next
  case (Cons ev evs)
  show ?case
  proof (cases ev)
    case (TextChanged lang t)
    show ?thesis
    proof (cases "eds lang = None")
      case True
      then show ?thesis using Cons TextChanged by simp
    next
      case False
      then have "burst_outcome INTERVAL tab (eds(lang \<mapsto> t)) evs = Some (r, tab', eds')"
        using Cons.prems TextChanged by auto
      then show ?thesis
        by (rule Cons.IH) (simp add: INTERVAL_def)
    qed
  next
    case (TabSelected lang)
    then show ?thesis using Cons by (cases "eds lang = None") simp_all
  next
    case Tick
    then have "burst_outcome (r0 - 1) tab eds evs = Some (r, tab', eds')" "1 < r0"
      using Cons.prems by (simp_all split: if_splits)
    then show ?thesis
      using Cons.IH [of "r0 - 1" tab eds] by simp
  qed (use Cons in simp_all)
qed

lemma burst_then_wait:
  assumes "code_editors s lang \<noteq> None"
    and "burst_outcome INTERVAL (current_tab s) ((code_editors s)(lang \<mapsto> text)) evs = Some (r, tab, eds)"
    and "eds tab = Some code"
  shows "\<exists>s'. run_events E (TextChanged lang text # evs) s = (None, s')
           \<and> dispatched s' = dispatched s
           \<and> current_tab s' = tab \<and> code_editors s' = eds
           \<and> (\<forall>n. dispatched (snd (run_events E (replicate n Tick) s'))
                    = dispatched s @ (if n < r then [] else [(tab, code)]))"
proof -
  let ?s0 = "on_code_change (s\<lparr>code_editors := (code_editors s)(lang \<mapsto> text)\<rparr>)"
  have st: "step E (TextChanged lang text) s = (None, ?s0)"
    using assms(1) by auto
  have b: "burst_outcome INTERVAL (current_tab ?s0) (code_editors ?s0) evs = Some (r, tab, eds)"
    using assms(2) by (simp add: on_code_change_def)
  have t: "run_timer ?s0 = Some INTERVAL"
    by (simp add: on_code_change_def)
  from burst_quiet [OF b t, of E] obtain s' where s':
    "run_events E evs ?s0 = (None, s')" "run_timer s' = Some r" "current_tab s' = tab"
    "code_editors s' = eds" "dispatched s' = dispatched ?s0"
    by blast
  have d: "dispatched s' = dispatched s"
    using s'(5) by (simp add: on_code_change_def)
  have rpos: "0 < r"
    using burst_outcome_positive [OF assms(2)] by (simp add: INTERVAL_def)
  have ed: "code_editors s' (current_tab s') = Some code"
    using s'(3,4) assms(3) by simp
  have "dispatched (snd (run_events E (replicate n Tick) s'))
        = dispatched s @ (if n < r then [] else [(tab, code)])" for n
  proof (cases "n < r")
    case True
    then show ?thesis
      using ticks_countdown [OF s'(2) True, of E] d by simp
  next
    case False
    then have "r \<le> n" "0 < n" using rpos by auto
    then show ?thesis
      using ticks_fire_once [OF s'(2) _ ed, of n E] d s'(3) False by simp
  qed
  then show ?thesis
    using st s' d by simp
qed

section \<open>The claims\<close>

text \<open>
  Claim C1. After an edit and any further events during which the countdown of 1.5
  seconds never elapses (further edits restart it), no dispatch has happened; waiting
  then for the rest of the countdown or longer without an edit adds exactly one dispatch,
  and it uses the tab selected and the text of its editor at that time, not the text of
  the edits that started the countdown.
\<close>

theorem debounce_single_dispatch:
  assumes "code_editors s lang \<noteq> None"
    and "burst_outcome INTERVAL (current_tab s) ((code_editors s)(lang \<mapsto> t)) evs = Some (r, tab, eds)"
    and "eds tab = Some code"
  shows "\<exists>s'. run_events E (TextChanged lang t # evs) s = (None, s')
           \<and> dispatched s' = dispatched s
           \<and> current_tab s' = tab \<and> code_editors s' = eds
           \<and> (\<forall>n. dispatched (snd (run_events E (replicate n Tick) s'))
                    = dispatched s @ (if n < r then [] else [(tab, code)]))"
  using assms by (rule burst_then_wait)

text \<open>
  An example, on any machine: two edits of the Python editor within three milliseconds.
  The text of the second edit is dispatched once, 1498 milliseconds later, and not
  before.
\<close>

theorem debounce_single_dispatch_witness:
  "\<forall>E. dispatched (snd (run_events E (replicate 1498 Tick)
      (snd (run_events E
         [TextChanged ''Python'' (py ''print(1)''), Tick,
          TextChanged ''Python'' (py ''print(12)''), Tick, Tick]
         (init_app empty_world)))))
   = [(''Python'', py ''print(12)'')]
   \<and> dispatched (snd (run_events E (replicate 1497 Tick)
      (snd (run_events E
         [TextChanged ''Python'' (py ''print(1)''), Tick,
          TextChanged ''Python'' (py ''print(12)''), Tick, Tick]
         (init_app empty_world)))))
   = []"
proof
  fix E
  let ?s = "init_app empty_world"
  let ?evs = "[Tick, TextChanged ''Python'' (py ''print(12)''), Tick, Tick]"
  let ?eds = "(code_editors ?s)(''Python'' \<mapsto> py ''print(12)'')"
  have h1: "code_editors ?s ''Python'' \<noteq> None"
    by (simp add: init_editors)
  have h2: "burst_outcome INTERVAL (current_tab ?s) ((code_editors ?s)(''Python'' \<mapsto> py ''print(1)'')) ?evs
            = Some (1498, ''Python'', ?eds)"
    using h1 by (simp add: INTERVAL_def) (simp add: init_app_def)
  have h3: "?eds ''Python'' = Some (py ''print(12)'')"
    by simp
  from debounce_single_dispatch [OF h1 h2 h3, of E] obtain s' where
    a: "run_events E (TextChanged ''Python'' (py ''print(1)'') # ?evs) ?s = (None, s')"
    and b: "\<forall>n. dispatched (snd (run_events E (replicate n Tick) s'))
                    = dispatched ?s @ (if n < 1498 then [] else [(''Python'', py ''print(12)'')])"
    by blast
  have d: "dispatched ?s = []"
    by (simp add: init_app_def)
  show "dispatched (snd (run_events E (replicate 1498 Tick)
      (snd (run_events E
         [TextChanged ''Python'' (py ''print(1)''), Tick,
          TextChanged ''Python'' (py ''print(12)''), Tick, Tick]
         (init_app empty_world)))))
   = [(''Python'', py ''print(12)'')]
   \<and> dispatched (snd (run_events E (replicate 1497 Tick)
      (snd (run_events E
         [TextChanged ''Python'' (py ''print(1)''), Tick,
          TextChanged ''Python'' (py ''print(12)''), Tick, Tick]
         (init_app empty_world)))))
   = []"
    unfolding a snd_conv using b [rule_format, of 1498] b [rule_format, of 1497] d by simp
qed

text \<open>
  Claim C2, as stated: after every dispatch of C, C++ or Rust the binary path does not
  exist, and it is a path inside the scratch directory. It fails for Rust: the binary is
  \<^verbatim>\<open>./temp_code\<close> in the working directory, and after a failed compile step no
  deletion is attempted, so a binary left there by an earlier run is still there.
\<close>

theorem binary_cleanup_counterexample:
  "(\<forall>M. files (snd (execute_code (broken_tools M) ''Rust'' (descriptor_path ''Rust'')
                 (staged ''Rust'' (py ''fn main('') leftover_binary_world))) rust_binary
          = Some (py ''ELF''))
   \<and> rust_binary = ''./temp_code''
   \<and> take (length TEMP_DIR) rust_binary \<noteq> TEMP_DIR"
proof -
  have "files (snd (execute_code (broken_tools M) ''Rust'' (descriptor_path ''Rust'')
                 (staged ''Rust'' (py ''fn main('') leftover_binary_world))) rust_binary
          = Some (py ''ELF'')" for M
  proof -
    let ?E = "broken_tools M"
    let ?w = "staged ''Rust'' (py ''fn main('') leftover_binary_world"
    let ?w1 = "?w\<lparr>files := (files ?w)(source_path ''Rust'' \<mapsto> py ''fn main(''),
                     trace := trace ?w @ [Wrote (source_path ''Rust'') (py ''fn main('')]\<rparr>"
    let ?cp = "\<lparr>returncode = 1, stdout = [], stderr = py ''error''\<rparr>"
    let ?w2 = "?w1\<lparr>trace := trace ?w1 @ [Ran [py ''rustc'', py rust_source]]\<rparr>"
    have ro: "source_path ''Rust'' \<notin> readonly ?w"
      by (simp add: staged_files leftover_binary_world_def)
    have we: "write_error ?E (py ''fn main('') = None"
      by (rule sample_write_error) (rule no_surrogate_py)
    have ws: "write_source ?E (source_path ''Rust'') (descriptor_path ''Rust'') ?w = (Inr (), ?w1)"
      by (rule write_source_staged [OF staged_files(1) editor_text_py source_path_neq_descriptor ro we])
    have cp: "subprocess_run ?E (compile_command ''Rust'') ?w1 = (Inr ?cp, ?w2)"
      by (simp add: compile_command_def launch_def launch_error_def arg_error_constants
            sample_exec_error installed_simps spawn_def sample_behave)
    have c: "''Rust'' \<in> {''C'', ''C++'', ''Rust''}" "returncode ?cp \<noteq> 0"
      by simp_all
    show ?thesis
      unfolding compile_failure_run [OF c(1) ws cp c(2)]
      by (simp add: staged_def leftover_binary_world_def source_path_simps path_simps
            descriptor_path_eq rust_binary_def)
  qed
  then show ?thesis
    by (simp add: rust_binary_def TEMP_DIR_def)
qed

text \<open>
  Claim C2, amended. After a dispatch of C or C++ whose \<^verbatim>\<open>try\<close> block ends without
  an exception, the binary \<^verbatim>\<open>appstack_temp/temp_exec\<close>, a fixed path inside the scratch
  directory, does not exist. After a dispatch of Rust whose \<^verbatim>\<open>try\<close> block ends
  without an exception and that started the run step, the binary \<^verbatim>\<open>./temp_code\<close> does
  not exist. An exception of the block, the one of the deletion included, is caught: its
  message is the result of the dispatch.
\<close>

theorem binary_removed:
  "(language \<in> {''C'', ''C++''} \<longrightarrow> fst (execute_body E language code_file w) = Inr out \<longrightarrow>
      files (snd (execute_code E language code_file w)) c_binary = None)
   \<and> (fst (execute_body E ''Rust'' code_file w) = Inr out \<longrightarrow>
        Ran [py rust_binary]
          \<in> set (drop (length (trace w)) (trace (snd (execute_code E ''Rust'' code_file w)))) \<longrightarrow>
        files (snd (execute_code E ''Rust'' code_file w)) rust_binary = None)
   \<and> (fst (execute_body E language code_file w) = Inl e \<longrightarrow>
        execute_code E language code_file w = (str_exn E e, snd (execute_body E language code_file w)))
   \<and> c_binary = TEMP_DIR @ ''/temp_exec''
   \<and> rust_binary = ''./temp_code''"
proof -
  have c: "files (snd (execute_code E language code_file w)) c_binary = None"
    if l: "language \<in> {''C'', ''C++''}" and b: "fst (execute_body E language code_file w) = Inr out"
  proof -
    obtain w' where "execute_body E language code_file w = (Inr out, w')"
      using b by (cases "execute_body E language code_file w") auto
    then show ?thesis
      using c_body_Inr [of language E code_file w out w'] l
      by (simp add: execute_code_def)
  qed
  have r: "files (snd (execute_code E ''Rust'' code_file w)) rust_binary = None"
    if b: "fst (execute_body E ''Rust'' code_file w) = Inr out"
      and t: "Ran [py rust_binary] \<in> set (drop (length (trace w)) (trace (snd (execute_code E ''Rust'' code_file w))))"
  proof -
    obtain w' where "execute_body E ''Rust'' code_file w = (Inr out, w')"
      using b by (cases "execute_body E ''Rust'' code_file w") auto
    then show ?thesis
      using rust_body_Inr [of E code_file w out w'] t
      by (simp add: execute_code_def)
  qed
  show ?thesis
    using c r execute_code_Inl [of E language code_file w e]
    by (simp add: c_binary_def os_path_join_def TEMP_DIR_def rust_binary_def)
qed

text \<open>
  An example: on a machine whose compilers write the binary, a dispatch of C and one of
  Rust leave no binary behind.
\<close>

theorem binary_removed_witness:
  "\<forall>M. files (snd (execute_code (sample_tools M) ''C'' (descriptor_path ''C'')
                 (staged ''C'' (py ''int main(){}'') empty_world))) c_binary = None
   \<and> files (snd (execute_code (sample_tools M) ''Rust'' (descriptor_path ''Rust'')
                 (staged ''Rust'' (py ''fn main(){}'') empty_world))) rust_binary = None"
proof
  fix M
  let ?E = "sample_tools M"
  let ?wc = "staged ''C'' (py ''int main(){}'') empty_world"
  let ?wr = "staged ''Rust'' (py ''fn main(){}'') empty_world"
  note run_c = sample_c_run [OF editor_text_py no_surrogate_py, of M "''int main(){}''"]
  note run_r = sample_rust_run [OF editor_text_py no_surrogate_py, of M "''fn main(){}''"]
  have c: "''C'' \<in> {''C'', ''C++''}"
    by simp
  have bc: "fst (execute_body ?E ''C'' (descriptor_path ''C'') ?wc) = Inr (py ''Hello'')"
    by (simp add: run_c)
  have br: "fst (execute_body ?E ''Rust'' (descriptor_path ''Rust'') ?wr) = Inr (py ''Hello'')"
    by (simp add: run_r)
  have tr: "Ran [py rust_binary] \<in> set (drop (length (trace ?wr))
              (trace (snd (execute_code ?E ''Rust'' (descriptor_path ''Rust'') ?wr))))"
    by (simp add: execute_code_def run_r)
  show "files (snd (execute_code ?E ''C'' (descriptor_path ''C'') ?wc)) c_binary = None
      \<and> files (snd (execute_code ?E ''Rust'' (descriptor_path ''Rust'') ?wr)) rust_binary = None"
    using binary_removed [of "''C''" ?E "descriptor_path ''C''" ?wc "py ''Hello''"] c bc
      binary_removed [of "''Rust''" ?E "descriptor_path ''Rust''" ?wr "py ''Hello''"] br tr
    by blast
qed

text \<open>
  Claim C3: a dispatch of Go writes the text to the source file, invokes the run command
  of the language on that file and returns the standard output or the standard error of
  that process. The code passes the two words \<^verbatim>\<open>go run\<close> as the name of one program:
  on a machine where no program has that name, for every text of an editor, the source
  file is written, no process is started and the result is the message of the
  \<^verbatim>\<open>FileNotFoundError\<close>. (A text that the locale cannot encode is not written: the
  source file stays empty and the result is the message of that exception.)
\<close>

theorem go_run_not_found:
  assumes "exec_error E [py ''go run'', py go_source]
             ((files (staged ''Go'' code w))(go_source \<mapsto> code))
           = Some (FileNotFoundError (py ''go run''))"
    and "go_source \<notin> readonly w"
    and "editor_text code"
  shows "execute_code E ''Go'' (descriptor_path ''Go'') (staged ''Go'' code w)
         = (case write_error E code of
              None \<Rightarrow>
                (py (''[Errno 2] No such file or directory: '' @ [CHR 0x27] @ ''go run'' @ [CHR 0x27]),
                 (staged ''Go'' code w)
                   \<lparr>files := (files (staged ''Go'' code w))(go_source \<mapsto> code),
                    trace := trace (staged ''Go'' code w) @ [Wrote go_source code]\<rparr>)
            | Some e \<Rightarrow>
                (str_exn E e,
                 (staged ''Go'' code w)\<lparr>files := (files (staged ''Go'' code w))(go_source \<mapsto> [])\<rparr>))"
proof (cases "write_error E code")
  case None
  let ?w = "staged ''Go'' code w"
  have ro: "go_source \<notin> readonly ?w"
    using assms(2) by (simp add: staged_files)
  have ne: "go_source \<noteq> descriptor_path ''Go''"
    using source_path_neq_descriptor [of "''Go''" "''Go''"] by (simp add: source_path_simps)
  have "execute_body E ''Go'' (descriptor_path ''Go'') ?w
        = (Inl (FileNotFoundError (py ''go run'')),
           ?w\<lparr>files := (files ?w)(go_source \<mapsto> code), trace := trace ?w @ [Wrote go_source code]\<rparr>)"
    using assms(1)
    by (simp add: execute_body_def
          then_io_write_source_staged [OF staged_files(1) assms(3) ne ro None] cmd_of_simps)
       (simp add: then_io_def launch_def launch_error_def arg_error_constants)
  then show ?thesis
    unfolding None by (simp add: execute_code_def py_repr_def plain_text_paths) (simp add: py_def)
next
  case (Some e)
  let ?w = "staged ''Go'' code w"
  have l: "''Go'' \<in> {''C'', ''C++'', ''Rust'', ''Go''}"
    by simp
  have ro: "source_path ''Go'' \<notin> readonly ?w"
    using assms(2) by (simp add: staged_files source_path_simps)
  show ?thesis
    unfolding Some
    using source_unencodable [OF l staged_files(1) assms(3) source_path_neq_descriptor ro Some]
    by (simp add: source_path_simps)
qed

text \<open>
  An example: a machine on which \<^verbatim>\<open>go\<close> is installed.
\<close>

theorem go_run_not_found_witness:
  "\<forall>M. execute_code (sample_tools M) ''Go'' (descriptor_path ''Go'')
          (staged ''Go'' (py ''package main'') empty_world)
   = (py (''[Errno 2] No such file or directory: '' @ [CHR 0x27] @ ''go run'' @ [CHR 0x27]),
      (staged ''Go'' (py ''package main'') empty_world)
        \<lparr>files := (files (staged ''Go'' (py ''package main'') empty_world))
                    (go_source \<mapsto> py ''package main''),
         trace := trace (staged ''Go'' (py ''package main'') empty_world)
                  @ [Wrote go_source (py ''package main'')]\<rparr>)"
proof
  fix M
  have a: "exec_error (sample_tools M) [py ''go run'', py go_source]
             ((files (staged ''Go'' (py ''package main'') empty_world))(go_source \<mapsto> py ''package main''))
           = Some (FileNotFoundError (py ''go run''))"
    by (simp add: sample_exec_error installed_simps)
  have b: "go_source \<notin> readonly empty_world"
    by (simp add: empty_world_def)
  have c: "write_error (sample_tools M) (py ''package main'') = None"
    by (rule sample_write_error) (rule no_surrogate_py)
  show "execute_code (sample_tools M) ''Go'' (descriptor_path ''Go'')
          (staged ''Go'' (py ''package main'') empty_world)
   = (py (''[Errno 2] No such file or directory: '' @ [CHR 0x27] @ ''go run'' @ [CHR 0x27]),
      (staged ''Go'' (py ''package main'') empty_world)
        \<lparr>files := (files (staged ''Go'' (py ''package main'') empty_world))
                    (go_source \<mapsto> py ''package main''),
         trace := trace (staged ''Go'' (py ''package main'') empty_world)
                  @ [Wrote go_source (py ''package main'')]\<rparr>)"
    using go_run_not_found [OF a b editor_text_py] unfolding c by simp
qed

text \<open>
  Claim C4, as stated: a clear request between an edit and the end of the countdown
  cancels the countdown, so that no dispatch follows. It fails: after an edit, a click on
  the clear button and 1.5 seconds, the text has been dispatched.
\<close>

theorem clear_cancels_counterexample:
  "\<forall>E. dispatched (snd (run_events E
      ([TextChanged ''Python'' (py ''print(1)''), ClearClicked] @ replicate 1500 Tick)
      (init_app empty_world)))
   = [(''Python'', py ''print(1)'')]"
proof
  fix E
  let ?s = "init_app empty_world"
  let ?eds = "(code_editors ?s)(''Python'' \<mapsto> py ''print(1)'')"
  have h1: "code_editors ?s ''Python'' \<noteq> None"
    by (simp add: init_editors)
  have h2: "burst_outcome INTERVAL (current_tab ?s) ((code_editors ?s)(''Python'' \<mapsto> py ''print(1)''))
              [ClearClicked] = Some (1500, ''Python'', ?eds)"
    by (simp add: INTERVAL_def init_app_def)
  have h3: "?eds ''Python'' = Some (py ''print(1)'')"
    by simp
  from burst_then_wait [OF h1 h2 h3, of E] obtain s' where
    a: "run_events E [TextChanged ''Python'' (py ''print(1)''), ClearClicked] ?s = (None, s')"
    and b: "\<forall>n. dispatched (snd (run_events E (replicate n Tick) s'))
                    = dispatched ?s @ (if n < 1500 then [] else [(''Python'', py ''print(1)'')])"
    by blast
  have d: "dispatched ?s = []"
    by (simp add: init_app_def)
  show "dispatched (snd (run_events E
      ([TextChanged ''Python'' (py ''print(1)''), ClearClicked] @ replicate 1500 Tick)
      (init_app empty_world)))
   = [(''Python'', py ''print(1)'')]"
    unfolding run_events_append a using b [rule_format, of 1500] d by simp
qed

text \<open>
  Claim C4, amended: \<^verbatim>\<open>clear_output\<close> empties the output area and asks the preview
  process to end when it is running; it leaves the countdown as it is, so an edit followed
  by a clear request is still dispatched once, when the 1.5 seconds have passed.
\<close>

theorem clear_keeps_countdown:
  assumes "code_editors s lang \<noteq> None"
    and "((code_editors s)(lang \<mapsto> t)) (current_tab s) = Some code"
  shows "output_area (clear_output s) = []
       \<and> run_timer (clear_output s) = run_timer s
       \<and> gui_process (clear_output s) = terminate_if_running (gui_process s)
       \<and> term_sent (gui_process (clear_output s))
           = (term_sent (gui_process s) \<or> pstate (gui_process s) = Running)
       \<and> dispatched (snd (run_events E (TextChanged lang t # ClearClicked # replicate n Tick) s))
           = dispatched s @ (if n < INTERVAL then [] else [(current_tab s, code)])"
proof -
  have h2: "burst_outcome INTERVAL (current_tab s) ((code_editors s)(lang \<mapsto> t)) [ClearClicked]
            = Some (INTERVAL, current_tab s, (code_editors s)(lang \<mapsto> t))"
    by simp
  from burst_then_wait [OF assms(1) h2 assms(2), of E] obtain s' where
    a: "run_events E [TextChanged lang t, ClearClicked] s = (None, s')"
    and b: "\<forall>n. dispatched (snd (run_events E (replicate n Tick) s'))
                    = dispatched s @ (if n < INTERVAL then [] else [(current_tab s, code)])"
    by blast
  have "dispatched (snd (run_events E ([TextChanged lang t, ClearClicked] @ replicate n Tick) s))
           = dispatched s @ (if n < INTERVAL then [] else [(current_tab s, code)])"
    unfolding run_events_append a using b by simp
  then show ?thesis
    by (simp add: clear_output_def terminate_if_running_def)
qed

text \<open>
  An example, on any machine: the C tab, an edit, a clear request, 1.5 seconds.
\<close>

theorem clear_keeps_countdown_witness:
  "\<forall>E. dispatched (snd (run_events E
      (TextChanged ''C'' (py ''int main(){}'') # ClearClicked # replicate 1500 Tick)
      ((init_app empty_world)\<lparr>current_tab := ''C''\<rparr>)))
   = [(''C'', py ''int main(){}'')]"
proof
  fix E
  let ?s = "(init_app empty_world)\<lparr>current_tab := ''C''\<rparr>"
  have h1: "code_editors ?s ''C'' \<noteq> None"
    by (simp add: init_editors)
  have h2: "((code_editors ?s)(''C'' \<mapsto> py ''int main(){}'')) (current_tab ?s) = Some (py ''int main(){}'')"
    by simp
  have d: "dispatched ?s = []"
    by (simp add: init_app_def)
  show "dispatched (snd (run_events E
      (TextChanged ''C'' (py ''int main(){}'') # ClearClicked # replicate 1500 Tick)
      ((init_app empty_world)\<lparr>current_tab := ''C''\<rparr>)))
   = [(''C'', py ''int main(){}'')]"
    using clear_keeps_countdown [OF h1 h2, of E 1500] d by (simp add: INTERVAL_def)
qed

text \<open>
  Claim C5. A dispatch first stages the text. When staging has returned, the route
  depends on the language and the text only: exactly when the language is Python and the
  text contains \<^verbatim>\<open>Tkinter\<close> or \<^verbatim>\<open>PyQt6\<close>, the preview process is started, the
  output area keeps its text and nothing but the descriptor has been written; in every
  other case \<^verbatim>\<open>execute_code\<close> runs on the staged descriptor, its result is put in
  the output area, and no preview process is touched.
\<close>

theorem dispatch_routing:
  assumes "code_editors s (current_tab s) = Some code"
    and "descriptor_path (current_tab s) \<notin> readonly (outside s)"
  shows "fst (run_code E s) = None
       \<and> (is_gui_code (current_tab s) code \<longleftrightarrow>
            current_tab s = ''Python'' \<and> ((\<exists>pre post. code = pre @ py ''Tkinter'' @ post)
                                        \<or> (\<exists>pre post. code = pre @ py ''PyQt6'' @ post)))
       \<and> (is_gui_code (current_tab s) code \<longrightarrow>
            output_area (snd (run_code E s)) = output_area s
          \<and> outside (snd (run_code E s)) = staged (current_tab s) code (outside s)
          \<and> gui_process (snd (run_code E s)) = started_preview code
          \<and> old_procs (snd (run_code E s)) = old_procs s @ [terminate_if_running (gui_process s)])
       \<and> (\<not> is_gui_code (current_tab s) code \<longrightarrow>
            (output_area (snd (run_code E s)), outside (snd (run_code E s)))
              = execute_code E (current_tab s) (descriptor_path (current_tab s))
                  (staged (current_tab s) code (outside s))
          \<and> gui_process (snd (run_code E s)) = gui_process s
          \<and> old_procs (snd (run_code E s)) = old_procs s)"
proof -
  note rc = run_code_routed [OF assms, of E]
  have c1: "fst (run_code E s) = None"
    unfolding rc by simp
  have c2: "is_gui_code (current_tab s) code \<longleftrightarrow>
            current_tab s = ''Python'' \<and> ((\<exists>pre post. code = pre @ py ''Tkinter'' @ post)
                                        \<or> (\<exists>pre post. code = pre @ py ''PyQt6'' @ post))"
    by (rule is_gui_code_iff)
  have c3: "is_gui_code (current_tab s) code \<longrightarrow>
            output_area (snd (run_code E s)) = output_area s
          \<and> outside (snd (run_code E s)) = staged (current_tab s) code (outside s)
          \<and> gui_process (snd (run_code E s)) = started_preview code
          \<and> old_procs (snd (run_code E s)) = old_procs s @ [terminate_if_running (gui_process s)]"
    unfolding rc by (simp add: run_gui_preview_def)
  have c4: "\<not> is_gui_code (current_tab s) code \<longrightarrow>
            (output_area (snd (run_code E s)), outside (snd (run_code E s)))
              = execute_code E (current_tab s) (descriptor_path (current_tab s))
                  (staged (current_tab s) code (outside s))
          \<and> gui_process (snd (run_code E s)) = gui_process s
          \<and> old_procs (snd (run_code E s)) = old_procs s"
    unfolding rc by simp
  from c1 c2 c3 c4 show ?thesis
    by (intro conjI)
qed

text \<open>
  An example: a Python text that imports PyQt6 starts the preview; one that prints is run
  and its output shown.
\<close>

theorem dispatch_routing_witness:
  "\<forall>M. gui_process (snd (run_code (sample_tools M) (editing ''Python'' (py ''import PyQt6''))))
          = started_preview (py ''import PyQt6'')
   \<and> output_area (snd (run_code (sample_tools M) (editing ''Python'' (py ''import PyQt6'')))) = []
   \<and> output_area (snd (run_code (sample_tools M) (editing ''Python'' (py ''print(1)'')))) = py ''Hello''
   \<and> gui_process (snd (run_code (sample_tools M) (editing ''Python'' (py ''print(1)'')))) = new_qprocess"
proof
  fix M
  let ?E = "sample_tools M"
  let ?g = "editing ''Python'' (py ''import PyQt6'')"
  let ?p = "editing ''Python'' (py ''print(1)'')"
  have g: "code_editors ?g (current_tab ?g) = Some (py ''import PyQt6'')"
    "descriptor_path (current_tab ?g) \<notin> readonly (outside ?g)"
    by (simp_all add: editing_def init_app_def empty_world_def)
  have g3: "is_gui_code (current_tab ?g) (py ''import PyQt6'')"
    by (simp add: editing_def init_app_def is_gui_code_def py_def)
  have p: "code_editors ?p (current_tab ?p) = Some (py ''print(1)'')"
    "descriptor_path (current_tab ?p) \<notin> readonly (outside ?p)"
    by (simp_all add: editing_def init_app_def empty_world_def)
  have p3: "\<not> is_gui_code (current_tab ?p) (py ''print(1)'')"
    by (simp add: editing_def init_app_def is_gui_code_def py_def)
  have e: "current_tab ?p = ''Python''" "outside ?p = empty_world" "gui_process ?p = new_qprocess"
    "output_area ?g = []"
    by (simp_all add: editing_def init_app_def)
  have z: "0 \<notin> set (py ''print(1)'')"
    by (simp add: py_def)
  have x: "fst (execute_code ?E ''Python'' (descriptor_path ''Python'')
                 (staged ''Python'' (py ''print(1)'') empty_world)) = py ''Hello''"
    by (simp add: sample_python_run [OF editor_text_py no_surrogate_py z])
  from dispatch_routing [OF g, of ?E] g3
  have 1: "gui_process (snd (run_code ?E ?g)) = started_preview (py ''import PyQt6'')"
    "output_area (snd (run_code ?E ?g)) = []"
    using e(4) by simp_all
  from dispatch_routing [OF p, of ?E] p3
  have "(output_area (snd (run_code ?E ?p)), outside (snd (run_code ?E ?p)))
        = execute_code ?E ''Python'' (descriptor_path ''Python'')
            (staged ''Python'' (py ''print(1)'') empty_world)"
    "gui_process (snd (run_code ?E ?p)) = new_qprocess"
    unfolding e by simp_all
  then have 2: "output_area (snd (run_code ?E ?p)) = py ''Hello''"
    "gui_process (snd (run_code ?E ?p)) = new_qprocess"
    using x by (simp_all add: prod_eq_iff)
  from 1 2 show "gui_process (snd (run_code ?E ?g)) = started_preview (py ''import PyQt6'')
   \<and> output_area (snd (run_code ?E ?g)) = []
   \<and> output_area (snd (run_code ?E ?p)) = py ''Hello''
   \<and> gui_process (snd (run_code ?E ?p)) = new_qprocess"
    by simp
qed

text \<open>
  Claim C6, as stated: when the compile step of a compiled language exits with a nonzero
  code, the result is the standard error of the compiler. It fails when a binary of an
  earlier run exists and cannot be deleted: the exception of the deletion replaces the
  result.
\<close>

theorem compile_failure_counterexample:
  "\<forall>M. fst (execute_code (broken_tools M) ''C'' (descriptor_path ''C'')
          (staged ''C'' (py ''int main('') locked_binary_world))
     = py (''[Errno 13] Permission denied: '' @ [CHR 0x27] @ ''appstack_temp/temp_exec'' @ [CHR 0x27])
   \<and> fst (subprocess_run (broken_tools M) (compile_command ''C'')
          (snd (write_source (broken_tools M) (source_path ''C'') (descriptor_path ''C'')
                  (staged ''C'' (py ''int main('') locked_binary_world))))
     = Inr \<lparr>returncode = 1, stdout = [], stderr = py ''error''\<rparr>"
proof
  fix M
  let ?E = "broken_tools M"
  let ?w = "staged ''C'' (py ''int main('') locked_binary_world"
  let ?w1 = "?w\<lparr>files := (files ?w)(source_path ''C'' \<mapsto> py ''int main(''),
                   trace := trace ?w @ [Wrote (source_path ''C'') (py ''int main('')]\<rparr>"
  let ?cp = "\<lparr>returncode = 1, stdout = [], stderr = py ''error''\<rparr>"
  let ?w2 = "?w1\<lparr>trace := trace ?w1 @ [Ran [py ''/bin/sh'', py ''-c'',
                py ''gcc appstack_temp/temp_code.c -o appstack_temp/temp_exec'']]\<rparr>"
  have ro: "source_path ''C'' \<notin> readonly ?w"
    by (simp add: staged_files locked_binary_world_def source_path_simps path_simps)
  have we: "write_error ?E (py ''int main('') = None"
    by (rule sample_write_error) (rule no_surrogate_py)
  have ws: "write_source ?E (source_path ''C'') (descriptor_path ''C'') ?w = (Inr (), ?w1)"
    by (rule write_source_staged [OF staged_files(1) editor_text_py source_path_neq_descriptor ro we])
  have cp: "subprocess_run ?E (compile_command ''C'') ?w1 = (Inr ?cp, ?w2)"
    by (simp add: compile_command_def launch_def launch_error_def arg_error.simps is_ascii_def
          py_def sample_exec_error installed_def spawn_def sample_behave path_simps)
  have c: "''C'' \<in> {''C'', ''C++'', ''Rust''}" "returncode ?cp \<noteq> 0"
    by simp_all
  have "fst (execute_code ?E ''C'' (descriptor_path ''C'') ?w)
        = str_exn ?E (PermissionError (py c_binary))"
    unfolding compile_failure_run [OF c(1) ws cp c(2)]
    by (simp add: staged_def locked_binary_world_def source_path_simps path_simps
          descriptor_path_eq)
  then have r: "fst (execute_code ?E ''C'' (descriptor_path ''C'') ?w)
     = py (''[Errno 13] Permission denied: '' @ [CHR 0x27] @ ''appstack_temp/temp_exec'' @ [CHR 0x27])"
    by (simp add: py_repr_def plain_text_paths) (simp add: py_def path_simps)
  show "fst (execute_code ?E ''C'' (descriptor_path ''C'') ?w)
     = py (''[Errno 13] Permission denied: '' @ [CHR 0x27] @ ''appstack_temp/temp_exec'' @ [CHR 0x27])
   \<and> fst (subprocess_run ?E (compile_command ''C'')
          (snd (write_source ?E (source_path ''C'') (descriptor_path ''C'') ?w)))
     = Inr ?cp"
    unfolding ws snd_conv cp fst_conv using r by simp
qed

text \<open>
  Claim C6, amended. When the compile step of C, C++ or Rust exits with a nonzero code,
  the run step is not invoked: after the compile step nothing happens but, for C and C++,
  the deletion of an existing binary. The result is the standard error of the compiler,
  unless that deletion raises; then the result is the message of its exception.
\<close>

theorem compile_failure_result:
  assumes "language \<in> {''C'', ''C++'', ''Rust''}"
    and "write_source E (source_path language) code_file w = (Inr (), w1)"
    and "subprocess_run E (compile_command language) w1 = (Inr cp, w2)"
    and "returncode cp \<noteq> 0"
  shows "execute_code E language code_file w =
     (if language \<noteq> ''Rust'' \<and> files w2 c_binary \<noteq> None
      then (if c_binary \<in> readonly w2 then (str_exn E (PermissionError (py c_binary)), w2)
            else (stderr cp, w2\<lparr>files := (files w2)(c_binary := None),
                                trace := trace w2 @ [Removed c_binary]\<rparr>))
      else (stderr cp, w2))
   \<and> filter (\<lambda>a. a \<noteq> Removed c_binary)
        (drop (length (trace w2)) (trace (snd (execute_code E language code_file w)))) = []"
  unfolding compile_failure_run [OF assms] by simp

text \<open>
  An example: a Rust text that does not compile.
\<close>

theorem compile_failure_result_witness:
  "\<forall>M. execute_code (broken_tools M) ''Rust'' (descriptor_path ''Rust'')
          (staged ''Rust'' (py ''fn main('') empty_world)
   = (py ''error'',
      (staged ''Rust'' (py ''fn main('') empty_world)
        \<lparr>files := (files (staged ''Rust'' (py ''fn main('') empty_world))
                    (rust_source \<mapsto> py ''fn main(''),
         trace := trace (staged ''Rust'' (py ''fn main('') empty_world)
                  @ [Wrote rust_source (py ''fn main(''), Ran [py ''rustc'', py rust_source]]\<rparr>)"
proof
  fix M
  let ?E = "broken_tools M"
  let ?w = "staged ''Rust'' (py ''fn main('') empty_world"
  let ?w1 = "?w\<lparr>files := (files ?w)(source_path ''Rust'' \<mapsto> py ''fn main(''),
                   trace := trace ?w @ [Wrote (source_path ''Rust'') (py ''fn main('')]\<rparr>"
  let ?cp = "\<lparr>returncode = 1, stdout = [], stderr = py ''error''\<rparr>"
  let ?w2 = "?w1\<lparr>trace := trace ?w1 @ [Ran [py ''rustc'', py rust_source]]\<rparr>"
  have ro: "source_path ''Rust'' \<notin> readonly ?w"
    by (simp add: staged_files empty_world_def)
  have we: "write_error ?E (py ''fn main('') = None"
    by (rule sample_write_error) (rule no_surrogate_py)
  have ws: "write_source ?E (source_path ''Rust'') (descriptor_path ''Rust'') ?w = (Inr (), ?w1)"
    by (rule write_source_staged [OF staged_files(1) editor_text_py source_path_neq_descriptor ro we])
  have cp: "subprocess_run ?E (compile_command ''Rust'') ?w1 = (Inr ?cp, ?w2)"
    by (simp add: compile_command_def launch_def launch_error_def arg_error_constants
          sample_exec_error installed_simps spawn_def sample_behave)
  have c: "''Rust'' \<in> {''C'', ''C++'', ''Rust''}" "returncode ?cp \<noteq> 0"
    by simp_all
  show "execute_code ?E ''Rust'' (descriptor_path ''Rust'') ?w
   = (py ''error'',
      ?w\<lparr>files := (files ?w)(rust_source \<mapsto> py ''fn main(''),
         trace := trace ?w @ [Wrote rust_source (py ''fn main(''), Ran [py ''rustc'', py rust_source]]\<rparr>)"
    using compile_failure_result [OF c(1) ws cp c(2)] by (simp add: source_path_simps)
qed

text \<open>
  Claim C7: every failure inside a dispatch is caught and becomes the text of the result,
  and no exception leaves the dispatch. The code does catch the exceptions raised in
  \<^verbatim>\<open>execute_code\<close>: a source file that cannot be opened for writing gives the message
  of the \<^verbatim>\<open>PermissionError\<close> as the result. But \<^verbatim>\<open>run_code\<close> calls
  \<^verbatim>\<open>save_code\<close> before that, outside the \<^verbatim>\<open>try\<close> block: when the descriptor
  cannot be opened for writing, the same exception leaves the slot \<^verbatim>\<open>run_code\<close>.
  Nothing is executed, the output area keeps its text, and the event that called the slot
  is the last one that the program handles.
\<close>

theorem staging_failure_escapes:
  assumes "code_editors s (current_tab s) = Some code"
    and "descriptor_path (current_tab s) \<in> readonly (outside s)"
  shows "run_code E s =
           (Some (PermissionError (py (descriptor_path (current_tab s)))),
            s\<lparr>run_timer := None, dispatched := dispatched s @ [(current_tab s, code)]\<rparr>)
       \<and> run_events E (Tick # evs) (s\<lparr>run_timer := Some 1\<rparr>) =
           (Some (PermissionError (py (descriptor_path (current_tab s)))),
            s\<lparr>run_timer := None, dispatched := dispatched s @ [(current_tab s, code)]\<rparr>)
       \<and> (language \<in> {''C'', ''C++'', ''Rust'', ''Go''} \<longrightarrow> source_path language \<in> readonly w \<longrightarrow>
            execute_code E language code_file w
            = (str_exn E (PermissionError (py (source_path language))), w))"
proof -
  have a: "code_editors (s\<lparr>run_timer := Some INTERVAL\<rparr>) (current_tab (s\<lparr>run_timer := Some INTERVAL\<rparr>))
           = Some code"
    "descriptor_path (current_tab (s\<lparr>run_timer := Some INTERVAL\<rparr>))
       \<in> readonly (outside (s\<lparr>run_timer := Some INTERVAL\<rparr>))"
    using assms by simp_all
  have "run_events E (Tick # evs) (s\<lparr>run_timer := Some 1\<rparr>) =
           (Some (PermissionError (py (descriptor_path (current_tab s)))),
            s\<lparr>run_timer := None, dispatched := dispatched s @ [(current_tab s, code)]\<rparr>)"
    by (simp add: tick_def run_code_staging_denied [OF a])
  then show ?thesis
    using run_code_staging_denied [OF assms, of E] source_denied [of language w E code_file]
    by simp
qed

text \<open>
  An example: the descriptor of Python cannot be written; the user types a text, and 1.5
  seconds later the exception leaves the slot, with nothing written and nothing shown,
  and the click that follows is not handled. The source file of C cannot be written, and
  \<^verbatim>\<open>execute_code\<close> is called: the message is the result.
\<close>

theorem staging_failure_escapes_witness:
  "\<forall>M. fst (run_events (sample_tools M)
          (TextChanged ''Python'' (py ''print(1)'') # replicate 1499 Tick @ [Tick, ClearClicked])
          (init_app (empty_world\<lparr>readonly := {descriptor_path ''Python''}\<rparr>)))
        = Some (PermissionError (py ''appstack_temp/temp_code_Python.json''))
   \<and> output_area (snd (run_events (sample_tools M)
          (TextChanged ''Python'' (py ''print(1)'') # replicate 1499 Tick @ [Tick, ClearClicked])
          (init_app (empty_world\<lparr>readonly := {descriptor_path ''Python''}\<rparr>)))) = []
   \<and> outside (snd (run_events (sample_tools M)
          (TextChanged ''Python'' (py ''print(1)'') # replicate 1499 Tick @ [Tick, ClearClicked])
          (init_app (empty_world\<lparr>readonly := {descriptor_path ''Python''}\<rparr>))))
        = empty_world\<lparr>readonly := {descriptor_path ''Python''}\<rparr>
   \<and> execute_code (sample_tools M) ''C'' (descriptor_path ''C'') (empty_world\<lparr>readonly := {c_source ''C''}\<rparr>)
     = (py (''[Errno 13] Permission denied: '' @ [CHR 0x27] @ ''appstack_temp/temp_code.c'' @ [CHR 0x27]),
        empty_world\<lparr>readonly := {c_source ''C''}\<rparr>)"
proof
  fix M
  let ?E = "sample_tools M"
  let ?W = "empty_world\<lparr>readonly := {descriptor_path ''Python''}\<rparr>"
  let ?s = "(init_app ?W)\<lparr>code_editors := (code_editors (init_app ?W))(''Python'' \<mapsto> py ''print(1)'')\<rparr>"
  let ?wc = "empty_world\<lparr>readonly := {c_source ''C''}\<rparr>"
  let ?evs = "TextChanged ''Python'' (py ''print(1)'') # replicate 1499 Tick @ [Tick, ClearClicked]"
  let ?e = "PermissionError (py (descriptor_path (current_tab ?s)))"
  have a: "code_editors ?s (current_tab ?s) = Some (py ''print(1)'')"
    by (simp add: init_app_def)
  have b: "descriptor_path (current_tab ?s) \<in> readonly (outside ?s)"
    by (simp add: init_app_def)
  have c: "''C'' \<in> {''C'', ''C++'', ''Rust'', ''Go''}" "source_path ''C'' \<in> readonly ?wc"
    by (simp_all add: source_path_simps)
  note t = staging_failure_escapes [OF a b, of ?E "[ClearClicked]" "''C''" ?wc "descriptor_path ''C''"]
  have 1: "run_events ?E [Tick, ClearClicked] (?s\<lparr>run_timer := Some 1\<rparr>)
        = (Some ?e, ?s\<lparr>run_timer := None, dispatched := dispatched ?s @ [(current_tab ?s, py ''print(1)'')]\<rparr>)"
    using t by blast
  have 2: "execute_code ?E ''C'' (descriptor_path ''C'') ?wc
        = (str_exn ?E (PermissionError (py (source_path ''C''))), ?wc)"
    using t c by blast
  have 3: "str_exn ?E (PermissionError (py (source_path ''C'')))
        = py (''[Errno 13] Permission denied: '' @ [CHR 0x27] @ ''appstack_temp/temp_code.c'' @ [CHR 0x27])"
    by (simp add: source_path_simps py_repr_def plain_text_paths) (simp add: py_def path_simps)
  have 5: "run_events ?E (replicate 1499 Tick) (?s\<lparr>run_timer := Some INTERVAL\<rparr>)
        = (None, ?s\<lparr>run_timer := Some 1\<rparr>)"
    using ticks_countdown [of "?s\<lparr>run_timer := Some INTERVAL\<rparr>" INTERVAL 1499 ?E]
    by (simp add: INTERVAL_def)
  have 4: "run_events ?E (replicate 1499 Tick @ [Tick, ClearClicked]) (?s\<lparr>run_timer := Some INTERVAL\<rparr>)
        = (Some ?e, ?s\<lparr>run_timer := None, dispatched := dispatched ?s @ [(current_tab ?s, py ''print(1)'')]\<rparr>)"
    unfolding run_events_append 5 using 1 by (simp del: run_events.simps)
  have 6: "run_events ?E ?evs (init_app ?W)
        = (Some ?e, ?s\<lparr>run_timer := None, dispatched := dispatched ?s @ [(current_tab ?s, py ''print(1)'')]\<rparr>)"
    using 4 by (simp add: init_editors on_code_change_def)
  have 7: "descriptor_path (current_tab ?s) = ''appstack_temp/temp_code_Python.json''"
    by (simp add: init_app_def descriptor_path_eq)
  show "fst (run_events ?E ?evs (init_app ?W))
        = Some (PermissionError (py ''appstack_temp/temp_code_Python.json''))
   \<and> output_area (snd (run_events ?E ?evs (init_app ?W))) = []
   \<and> outside (snd (run_events ?E ?evs (init_app ?W))) = ?W
   \<and> execute_code ?E ''C'' (descriptor_path ''C'') ?wc
     = (py (''[Errno 13] Permission denied: '' @ [CHR 0x27] @ ''appstack_temp/temp_code.c'' @ [CHR 0x27]),
        ?wc)"
    unfolding 6 2 3 7 by (simp add: init_app_def)
qed

text \<open>
  Claim C8, as stated: after two consecutive calls of \<^verbatim>\<open>run_gui_preview\<close> exactly one
  child process is alive. It fails: the first child is still in state \<open>Starting\<close> at the
  second call, so it is not asked to end, and both are alive.
\<close>

theorem preview_exclusive_counterexample:
  "length (live_procs (run_gui_preview (py ''import PyQt6 # b'')
      (run_gui_preview (py ''import PyQt6 # a'') (init_app empty_world)))) = 2"
  by (simp add: live_procs_def run_gui_preview_def init_app_def terminate_if_running_def
        started_preview_def new_qprocess_def)

text \<open>
  Claim C8, amended: \<^verbatim>\<open>run_gui_preview\<close> asks the previous process to end exactly when
  its state is \<open>Running\<close>, without waiting for it and without changing its state, and then
  makes \<open>gui_process\<close> a new process that starts \<^verbatim>\<open>python3 -c\<close> with the text of the
  call; after two calls \<open>gui_process\<close> is the process of the second call's text.
\<close>

theorem preview_replaced:
  "gui_process (run_gui_preview b (run_gui_preview a s)) = started_preview b
   \<and> program (started_preview b) = ''python3''
   \<and> arguments (started_preview b) = [py ''-c'', b]
   \<and> pstate (started_preview b) = Starting
   \<and> old_procs (run_gui_preview b s) = old_procs s @ [terminate_if_running (gui_process s)]
   \<and> term_sent (terminate_if_running (gui_process s))
       = (term_sent (gui_process s) \<or> pstate (gui_process s) = Running)
   \<and> pstate (terminate_if_running (gui_process s)) = pstate (gui_process s)"
  by (simp add: run_gui_preview_def started_preview_def new_qprocess_def terminate_if_running_def)

text \<open>
  An example: the first child has reported that it runs before the second call; it is
  asked to end, and it is still alive.
\<close>

theorem preview_replaced_witness:
  "\<forall>E. term_sent (last (old_procs (run_gui_preview (py ''import PyQt6 # b'')
       (snd (run_events E [ProcStarted 1]
          (run_gui_preview (py ''import PyQt6 # a'') (init_app empty_world)))))))
   \<and> pstate (last (old_procs (run_gui_preview (py ''import PyQt6 # b'')
       (snd (run_events E [ProcStarted 1]
          (run_gui_preview (py ''import PyQt6 # a'') (init_app empty_world))))))) = Running
   \<and> gui_process (run_gui_preview (py ''import PyQt6 # b'')
       (run_gui_preview (py ''import PyQt6 # a'') (init_app empty_world)))
     = started_preview (py ''import PyQt6 # b'')"
proof
  fix E
  let ?s1 = "snd (run_events E [ProcStarted 1]
               (run_gui_preview (py ''import PyQt6 # a'') (init_app empty_world)))"
  have s1: "?s1 = (init_app empty_world)
              \<lparr>old_procs := [new_qprocess],
               gui_process := (started_preview (py ''import PyQt6 # a''))\<lparr>pstate := Running\<rparr>\<rparr>"
    by (simp add: run_gui_preview_def init_app_def proc_at_def update_proc_def
          terminate_if_running_def new_qprocess_def started_preview_def)
  have r: "pstate (gui_process ?s1) = Running"
    unfolding s1 by simp
  note t1 = preview_replaced [of "py ''import PyQt6 # b''" "py ''import PyQt6 # a''" ?s1]
  note t0 = preview_replaced [of "py ''import PyQt6 # b''" "py ''import PyQt6 # a''" "init_app empty_world"]
  have a: "last (old_procs (run_gui_preview (py ''import PyQt6 # b'') ?s1))
           = terminate_if_running (gui_process ?s1)"
    using t1 by (simp del: run_events.simps)
  have b: "term_sent (terminate_if_running (gui_process ?s1))"
    "pstate (terminate_if_running (gui_process ?s1)) = Running"
    using t1 r by (simp_all del: run_events.simps)
  have c: "gui_process (run_gui_preview (py ''import PyQt6 # b'')
             (run_gui_preview (py ''import PyQt6 # a'') (init_app empty_world)))
           = started_preview (py ''import PyQt6 # b'')"
    using t0 by blast
  show "term_sent (last (old_procs (run_gui_preview (py ''import PyQt6 # b'') ?s1)))
   \<and> pstate (last (old_procs (run_gui_preview (py ''import PyQt6 # b'') ?s1))) = Running
   \<and> gui_process (run_gui_preview (py ''import PyQt6 # b'')
       (run_gui_preview (py ''import PyQt6 # a'') (init_app empty_world)))
     = started_preview (py ''import PyQt6 # b'')"
    unfolding a using b c by (intro conjI)
qed

text \<open>
  Claim C9. For every language of \<^verbatim>\<open>language_cmds\<close> and every text of an editor, when
  the descriptor and the source file can be opened for writing: \<^verbatim>\<open>save_code\<close>
  writes the JSON text of the language and the text to the descriptor of the language and
  returns its path; reading that JSON text gives the language and the text back, whatever
  code points the text holds; and \<^verbatim>\<open>execute_code\<close> on the descriptor passes exactly
  the staged text to \<^verbatim>\<open>python3 -c\<close> for Python, and for the other languages first
  writes exactly the staged text to the source file. No other text is passed or written:
  when the arguments are refused before a process exists (a text with the code point 0, or
  one that cannot be encoded) or the interpreter cannot be executed, no process is
  started; when the locale cannot encode the text, the source file stays empty and the
  result is the message of the exception.
\<close>

theorem staging_roundtrip:
  assumes "language \<in> fst ` set language_cmds"
    and "descriptor_path language \<notin> readonly w"
    and "language \<noteq> ''Python'' \<longrightarrow> source_path language \<notin> readonly w"
    and "editor_text code"
  shows "save_code E language code w = (Inr (descriptor_path language), staged language code w)
       \<and> files (staged language code w) (descriptor_path language)
           = Some (json_dump [(py ''language'', py language), (py ''code'', code)])
       \<and> json_load (json_dump [(py ''language'', py language), (py ''code'', code)])
           = Some [(py ''language'', py language), (py ''code'', code)]
       \<and> dict_get [(py ''language'', py language), (py ''code'', code)] (py ''code'') = Inr code
       \<and> (language = ''Python'' \<longrightarrow>
            trace (snd (execute_code E language (descriptor_path language) (staged language code w)))
            = trace (staged language code w)
              @ (if launch_error E [py ''python3'', py ''-c'', code] (files (staged language code w)) = None
                 then [Ran [py ''python3'', py ''-c'', code]] else []))
       \<and> (language \<noteq> ''Python'' \<longrightarrow>
            (case write_error E code of
               None \<Rightarrow>
                 (\<exists>ext. trace (snd (execute_code E language (descriptor_path language)
                                       (staged language code w)))
                    = trace (staged language code w) @ Wrote (source_path language) code # ext)
             | Some e \<Rightarrow>
                 execute_code E language (descriptor_path language) (staged language code w)
                 = (str_exn E e,
                    (staged language code w)
                      \<lparr>files := (files (staged language code w))(source_path language \<mapsto> [])\<rparr>)))"
proof -
  let ?w1 = "staged language code w"
  have f: "files ?w1 (descriptor_path language)
           = Some (json_dump [(py ''language'', py language), (py ''code'', code)])"
    by (rule staged_files)
  have py: "trace (snd (execute_code E ''Python'' (descriptor_path language) ?w1))
         = trace ?w1 @ (if launch_error E [py ''python3'', py ''-c'', code] (files ?w1) = None
                        then [Ran [py ''python3'', py ''-c'', code]] else [])"
    by (rule python_code_trace [OF f assms(4)])
  have src: "case write_error E code of
               None \<Rightarrow>
                 (\<exists>ext. trace (snd (execute_code E language (descriptor_path language) ?w1))
                    = trace ?w1 @ Wrote (source_path language) code # ext)
             | Some e \<Rightarrow>
                 execute_code E language (descriptor_path language) ?w1
                 = (str_exn E e, ?w1\<lparr>files := (files ?w1)(source_path language \<mapsto> [])\<rparr>)"
    if "language \<noteq> ''Python''"
  proof -
    have l: "language \<in> {''C'', ''C++'', ''Rust'', ''Go''}"
      using assms(1) that by (auto simp: language_cmds_def)
    have ro: "source_path language \<notin> readonly ?w1"
      using assms(3) that by (simp add: staged_files)
    show ?thesis
    proof (cases "write_error E code")
      case None
      have "\<exists>ext. trace (snd (execute_body E language (descriptor_path language) ?w1))
                    = trace ?w1 @ Wrote (source_path language) code # ext"
        by (rule source_body_trace [OF l f assms(4) source_path_neq_descriptor ro None])
      then show ?thesis
        unfolding execute_code_trace_eq using None by simp
    next
      case (Some e)
      show ?thesis
        using source_unencodable [OF l f assms(4) source_path_neq_descriptor ro Some] Some
        by simp
    qed
  qed
  show ?thesis
    using save_code_ok [OF assms(2), of E code] f py src
    by (auto simp: json_roundtrip_staged [OF assms(4)] dict_get_code)
qed

text \<open>
  An example, on a machine with a UTF-8 locale: a C++ text with a euro sign and a code
  point above \<^verbatim>\<open>0xFFFF\<close> is staged, read back and written to the source file; a
  Python text with a euro sign is passed to the interpreter; for a Python text that ends
  with the code point 0 no process is started.
\<close>

theorem staging_roundtrip_witness:
  "\<forall>M. save_code (sample_tools M) ''C++'' (py ''// '' @ [0x20AC, 0x1F600]) empty_world
     = (Inr ''appstack_temp/temp_code_C++.json'',
        staged ''C++'' (py ''// '' @ [0x20AC, 0x1F600]) empty_world)
   \<and> json_load (json_dump [(py ''language'', py ''C++''), (py ''code'', py ''// '' @ [0x20AC, 0x1F600])])
     = Some [(py ''language'', py ''C++''), (py ''code'', py ''// '' @ [0x20AC, 0x1F600])]
   \<and> (\<exists>ext. trace (snd (execute_code (sample_tools M) ''C++'' (descriptor_path ''C++'')
                          (staged ''C++'' (py ''// '' @ [0x20AC, 0x1F600]) empty_world)))
          = trace (staged ''C++'' (py ''// '' @ [0x20AC, 0x1F600]) empty_world)
            @ Wrote ''appstack_temp/temp_code.cpp'' (py ''// '' @ [0x20AC, 0x1F600]) # ext)
   \<and> trace (snd (execute_code (sample_tools M) ''Python'' (descriptor_path ''Python'')
                          (staged ''Python'' (py ''print(1) # '' @ [0x20AC]) empty_world)))
          = trace (staged ''Python'' (py ''print(1) # '' @ [0x20AC]) empty_world)
            @ [Ran [py ''python3'', py ''-c'', py ''print(1) # '' @ [0x20AC]]]
   \<and> trace (snd (execute_code (sample_tools M) ''Python'' (descriptor_path ''Python'')
                          (staged ''Python'' (py ''print(1)'' @ [0]) empty_world)))
          = trace (staged ''Python'' (py ''print(1)'' @ [0]) empty_world)"
proof
  fix M
  let ?E = "sample_tools M"
  let ?cpp = "py ''// '' @ [0x20AC, 0x1F600]"
  let ?euro = "py ''print(1) # '' @ [0x20AC]"
  let ?nul = "py ''print(1)'' @ [0]"
  have k: "''C++'' \<in> fst ` set language_cmds" "''Python'' \<in> fst ` set language_cmds"
    by (simp_all add: language_cmds_def)
  have d: "descriptor_path l \<notin> readonly empty_world" for l
    by (simp add: empty_world_def)
  have s: "l \<noteq> ''Python'' \<longrightarrow> source_path l \<notin> readonly empty_world" for l
    by (simp add: empty_world_def)
  have t: "editor_text ?cpp" "editor_text ?euro" "editor_text ?nul"
    by (simp_all add: py_def is_code_point_def is_high_surrogate_def)
  have n: "\<not> list_ex is_surrogate ?cpp" "\<not> list_ex is_surrogate ?euro"
    "\<not> list_ex is_surrogate ?nul"
    by (simp_all add: py_def is_surrogate_def)
  have z: "0 \<notin> set ?euro" "0 \<in> set ?nul"
    by (simp_all add: py_def)
  note c1 = staging_roundtrip [OF k(1) d s t(1), of ?E]
  note c2 = staging_roundtrip [OF k(2) d s t(2), of ?E]
  note c3 = staging_roundtrip [OF k(2) d s t(3), of ?E]
  have 1: "save_code ?E ''C++'' ?cpp empty_world
     = (Inr ''appstack_temp/temp_code_C++.json'', staged ''C++'' ?cpp empty_world)"
    using c1 by (simp add: descriptor_path_eq)
  have 2: "json_load (json_dump [(py ''language'', py ''C++''), (py ''code'', ?cpp)])
     = Some [(py ''language'', py ''C++''), (py ''code'', ?cpp)]"
    using c1 by blast
  have 3: "\<exists>ext. trace (snd (execute_code ?E ''C++'' (descriptor_path ''C++'')
                          (staged ''C++'' ?cpp empty_world)))
          = trace (staged ''C++'' ?cpp empty_world)
            @ Wrote ''appstack_temp/temp_code.cpp'' ?cpp # ext"
    using c1 sample_write_error(1) [OF n(1), of M]
    by (simp add: source_path_simps path_simps)
  have 4: "trace (snd (execute_code ?E ''Python'' (descriptor_path ''Python'')
                          (staged ''Python'' ?euro empty_world)))
          = trace (staged ''Python'' ?euro empty_world) @ [Ran [py ''python3'', py ''-c'', ?euro]]"
    using c2 z(1) by (simp add: sample_launch_python [OF n(2)])
  have 5: "trace (snd (execute_code ?E ''Python'' (descriptor_path ''Python'')
                          (staged ''Python'' ?nul empty_world)))
          = trace (staged ''Python'' ?nul empty_world)"
    using c3 z(2) by (simp add: sample_launch_python [OF n(3)])
  from 1 2 3 4 5
  show "save_code ?E ''C++'' ?cpp empty_world
     = (Inr ''appstack_temp/temp_code_C++.json'', staged ''C++'' ?cpp empty_world)
   \<and> json_load (json_dump [(py ''language'', py ''C++''), (py ''code'', ?cpp)])
     = Some [(py ''language'', py ''C++''), (py ''code'', ?cpp)]
   \<and> (\<exists>ext. trace (snd (execute_code ?E ''C++'' (descriptor_path ''C++'')
                          (staged ''C++'' ?cpp empty_world)))
          = trace (staged ''C++'' ?cpp empty_world)
            @ Wrote ''appstack_temp/temp_code.cpp'' ?cpp # ext)
   \<and> trace (snd (execute_code ?E ''Python'' (descriptor_path ''Python'')
                          (staged ''Python'' ?euro empty_world)))
          = trace (staged ''Python'' ?euro empty_world) @ [Ran [py ''python3'', py ''-c'', ?euro]]
   \<and> trace (snd (execute_code ?E ''Python'' (descriptor_path ''Python'')
                          (staged ''Python'' ?nul empty_world)))
          = trace (staged ''Python'' ?nul empty_world)"
    by (intro conjI)
qed

text \<open>
  Claim C10. The test for the preview is a case-sensitive substring test for
  \<^verbatim>\<open>Tkinter\<close> and \<^verbatim>\<open>PyQt6\<close> (\<open>py_in_iff\<close>): a Python text of an editor that
  contains neither, such as one that imports the module \<^verbatim>\<open>tkinter\<close>, starts no
  preview process; it is run with \<^verbatim>\<open>python3 -c\<close> by \<^verbatim>\<open>execute_code\<close>, which waits
  for the process, and the result is put in the output area. (The process is started
  unless \<^verbatim>\<open>subprocess.run\<close> refuses the arguments or cannot execute the interpreter;
  the result is then the message of that exception.)
\<close>

theorem lowercase_tkinter_plain:
  assumes "current_tab s = ''Python''" and "code_editors s ''Python'' = Some code"
    and "\<not> py_in (py ''Tkinter'') code" and "\<not> py_in (py ''PyQt6'') code"
    and "descriptor_path ''Python'' \<notin> readonly (outside s)"
    and "editor_text code"
  shows "fst (run_code E s) = None
       \<and> gui_process (snd (run_code E s)) = gui_process s
       \<and> old_procs (snd (run_code E s)) = old_procs s
       \<and> output_area (snd (run_code E s))
           = fst (execute_code E ''Python'' (descriptor_path ''Python'') (staged ''Python'' code (outside s)))
       \<and> trace (outside (snd (run_code E s)))
           = trace (staged ''Python'' code (outside s))
             @ (if launch_error E [py ''python3'', py ''-c'', code]
                     (files (staged ''Python'' code (outside s))) = None
                then [Ran [py ''python3'', py ''-c'', code]] else [])"
proof -
  have a: "code_editors s (current_tab s) = Some code"
    "descriptor_path (current_tab s) \<notin> readonly (outside s)"
    using assms by simp_all
  have g: "\<not> is_gui_code (current_tab s) code"
    using assms(3,4) by (simp add: is_gui_code_def)
  show ?thesis
    unfolding run_code_routed [OF a] using g assms(1)
    by (simp add: python_code_trace [OF staged_files(1) assms(6)])
qed

text \<open>
  An example: the text \<^verbatim>\<open>import tkinter\<close>.
\<close>

theorem lowercase_tkinter_plain_witness:
  "\<forall>M. py_in (py ''tkinter'') (py ''import tkinter'')
   \<and> output_area (snd (run_code (sample_tools M) (editing ''Python'' (py ''import tkinter''))))
      = py ''Hello''
   \<and> gui_process (snd (run_code (sample_tools M) (editing ''Python'' (py ''import tkinter''))))
      = new_qprocess
   \<and> trace (outside (snd (run_code (sample_tools M) (editing ''Python'' (py ''import tkinter'')))))
      = trace (staged ''Python'' (py ''import tkinter'') empty_world)
        @ [Ran [py ''python3'', py ''-c'', py ''import tkinter'']]"
proof
  fix M
  let ?E = "sample_tools M"
  let ?s = "editing ''Python'' (py ''import tkinter'')"
  have h: "current_tab ?s = ''Python''" "code_editors ?s ''Python'' = Some (py ''import tkinter'')"
    "\<not> py_in (py ''Tkinter'') (py ''import tkinter'')" "\<not> py_in (py ''PyQt6'') (py ''import tkinter'')"
    "descriptor_path ''Python'' \<notin> readonly (outside ?s)"
    by (simp_all add: editing_def init_app_def empty_world_def py_def)
  have e: "outside ?s = empty_world" "gui_process ?s = new_qprocess"
    by (simp_all add: editing_def init_app_def)
  have z: "0 \<notin> set (py ''import tkinter'')"
    by (simp add: py_def)
  have x: "fst (execute_code ?E ''Python'' (descriptor_path ''Python'')
                 (staged ''Python'' (py ''import tkinter'') empty_world)) = py ''Hello''"
    by (simp add: sample_python_run [OF editor_text_py no_surrogate_py z])
  have l: "launch_error ?E [py ''python3'', py ''-c'', py ''import tkinter'']
             (files (staged ''Python'' (py ''import tkinter'') empty_world)) = None"
    using z by (simp add: sample_launch_python [OF no_surrogate_py])
  have i: "py_in (py ''tkinter'') (py ''import tkinter'')"
    by (simp add: py_def)
  show "py_in (py ''tkinter'') (py ''import tkinter'')
   \<and> output_area (snd (run_code ?E ?s)) = py ''Hello''
   \<and> gui_process (snd (run_code ?E ?s)) = new_qprocess
   \<and> trace (outside (snd (run_code ?E ?s)))
      = trace (staged ''Python'' (py ''import tkinter'') empty_world)
        @ [Ran [py ''python3'', py ''-c'', py ''import tkinter'']]"
    using lowercase_tkinter_plain [OF h editor_text_py, of ?E] i
    unfolding e x l by simp
qed

end
